theory Spec2Isabelle
  imports Complex_Main
begin

unbundle bit_operations_syntax

section \<open>Data model\<close>

text \<open>
  A JavaScript \<open>number\<close> is modelled as a \<^typ>\<open>real\<close>: every arithmetic law below is
  the law of the exact value, which the running program meets up to the rounding of
  IEEE doubles.  World and board points are the objects \<open>{x, y}\<close>; their two fields are
  named \<open>px\<close> and \<open>py\<close> here, so that \<open>x\<close> and \<open>y\<close> stay free for variables.
\<close>

record Point =
  px :: real
  py :: real

record ViewportType =
  offsetX :: real
  offsetY :: real
  zoom :: real

record EdgeCurve =
  sx :: real
  sy :: real
  x1 :: real
  y1 :: real
  x2 :: real
  y2 :: real
  tx :: real
  ty :: real

record NodeBounds =
  centerX :: real
  centerY :: real
  height :: real
  maxX :: real
  maxY :: real
  minX :: real
  minY :: real
  width :: real

text \<open>
  \<open>NodeType\<close> and \<open>EdgeType\<close> are imported by the sources from type files; the fields
  are the ones the code reads.  The field \<open>id\<close> is named \<open>node_id\<close>.  A node's \<open>width\<close>
  and \<open>height\<close> shadow the fields of the same name of \<open>NodeBounds\<close>, which are written
  \<open>NodeBounds.width\<close> and \<open>NodeBounds.height\<close> from here on.
\<close>

record NodeType =
  node_id :: string
  position :: Point
  width :: real
  height :: real

record EdgeType =
  source :: string
  target :: string

section \<open>Geometry\<close>

text \<open>\<open>createNodeMap\<close>: \<open>map.set(node.id, node)\<close> for each node in order, so a later
  node with the same id replaces an earlier one.\<close>

definition createNodeMap :: "NodeType list \<Rightarrow> (string \<rightharpoonup> NodeType)" where
  "createNodeMap nodes = foldl (\<lambda>m node. m(node_id node \<mapsto> node)) Map.empty nodes"

text \<open>\<open>getNodesBounds\<close>: \<open>undefined\<close> is \<open>None\<close>.  The four running bounds start at
  \<open>nodes[0]\<close> and the loop visits \<open>nodes[1]\<close> .. \<open>nodes[length - 1]\<close> in order.\<close>

definition boundsStep :: "real \<times> real \<times> real \<times> real \<Rightarrow> NodeType \<Rightarrow> real \<times> real \<times> real \<times> real" where
  "boundsStep acc node =
     (case acc of (mnX, mnY, mxX, mxY) \<Rightarrow>
        (min mnX (px (position node)),
         min mnY (py (position node)),
         max mxX (px (position node) + width node),
         max mxY (py (position node) + height node)))"

definition getNodesBounds :: "NodeType list \<Rightarrow> NodeBounds option" where
  "getNodesBounds nodes =
     (case nodes of
        [] \<Rightarrow> None
      | n0 # rest \<Rightarrow>
          (case foldl boundsStep
                  (px (position n0), py (position n0),
                   px (position n0) + width n0, py (position n0) + height n0) rest of
             (mnX, mnY, mxX, mxY) \<Rightarrow>
               let w = mxX - mnX; h = mxY - mnY in
               Some \<lparr> centerX = mnX + w / 2, centerY = mnY + h / 2, height = h,
                      maxX = mxX, maxY = mxY, minX = mnX, minY = mnY, width = w \<rparr>))"

definition getEdgeCurve :: "NodeType \<Rightarrow> NodeType \<Rightarrow> EdgeCurve" where
  "getEdgeCurve sourceNode targetNode =
     (let sx' = px (position sourceNode) + width sourceNode / 2;
          sy' = py (position sourceNode) + height sourceNode / 2;
          tx' = px (position targetNode) + width targetNode / 2;
          ty' = py (position targetNode) + height targetNode / 2;
          dx = tx' - sx';
          k = 35 / 100
      in \<lparr> sx = sx', sy = sy', x1 = sx' + dx * k, y1 = sy',
           x2 = tx' - dx * k, y2 = ty', tx = tx', ty = ty' \<rparr>)"

definition isPointInsideNode :: "real \<Rightarrow> real \<Rightarrow> NodeType \<Rightarrow> bool" where
  "isPointInsideNode worldX worldY node \<longleftrightarrow>
     worldX \<ge> px (position node) \<and>
     worldX \<le> px (position node) + width node \<and>
     worldY \<ge> py (position node) \<and>
     worldY \<le> py (position node) + height node"

text \<open>\<open>getTopNodeAtPoint\<close>: the loop \<open>for (i = length - 1; i >= 0; i -= 1)\<close>.  The
  counter of \<open>scanDown\<close> is \<open>i + 1\<close>, so that it stays a natural number when the loop
  ends; every read \<open>nodes[i]\<close> is in range.\<close>

fun scanDown :: "NodeType list \<Rightarrow> real \<Rightarrow> real \<Rightarrow> nat \<Rightarrow> NodeType option" where
  "scanDown nodes worldX worldY 0 = None"
| "scanDown nodes worldX worldY (Suc i) =
     (if isPointInsideNode worldX worldY (nodes ! i) then Some (nodes ! i)
      else scanDown nodes worldX worldY i)"

definition getTopNodeAtPoint :: "NodeType list \<Rightarrow> real \<Rightarrow> real \<Rightarrow> NodeType option" where
  "getTopNodeAtPoint nodes worldX worldY = scanDown nodes worldX worldY (length nodes)"

definition cubicBezierPoint :: "real \<Rightarrow> EdgeCurve \<Rightarrow> Point" where
  "cubicBezierPoint t curve =
     (let omt = 1 - t;
          omt2 = omt * omt;
          omt3 = omt2 * omt;
          t2 = t * t;
          t3 = t2 * t
      in \<lparr> px = omt3 * sx curve + 3 * omt2 * t * x1 curve + 3 * omt * t2 * x2 curve + t3 * tx curve,
           py = omt3 * sy curve + 3 * omt2 * t * y1 curve + 3 * omt * t2 * y2 curve + t3 * ty curve \<rparr>)"

section \<open>Viewport transform\<close>

text \<open>Modelled from the spec: the file \<open>graph/coordinates\<close> that defines
  \<open>worldPointToBoard\<close> and \<open>boardPointToWorld\<close> (the spec's \<open>worldToBoard\<close> and
  \<open>boardToWorld\<close>) is not among the sources; only its import and its calls are.  The two
  definitions follow section 4.1 of the specification: \<open>x' = x*zoom + offsetX\<close>,
  \<open>y' = y*zoom + offsetY\<close>, and \<open>x = (x' - offsetX)/zoom\<close>, \<open>y = (y' - offsetY)/zoom\<close>.\<close>

definition worldPointToBoard :: "Point \<Rightarrow> ViewportType \<Rightarrow> Point" where
  "worldPointToBoard p v = \<lparr> px = px p * zoom v + offsetX v, py = py p * zoom v + offsetY v \<rparr>"

definition boardPointToWorld :: "Point \<Rightarrow> ViewportType \<Rightarrow> Point" where
  "boardPointToWorld p v = \<lparr> px = (px p - offsetX v) / zoom v, py = (py p - offsetY v) / zoom v \<rparr>"

section \<open>The GPU as the renderer sees it\<close>

text \<open>
  The renderer talks to the GPU through method calls.  The model keeps the calls made so
  far, in order, and the next unused buffer handle: \<open>createBuffer\<close> returns a new object
  each time, which is a fresh handle here.
\<close>

type_synonym handle = nat

datatype topology = TriangleList | LineList

datatype init_call =
    GetPreferredCanvasFormat | Configure | CreateShaderModule | CreateBindGroupLayout
  | CreatePipelineLayout | CreateTrianglePipeline | CreateLinePipeline
  | CreateUniformBuffer | CreateBindGroup

datatype gpu_call =
    RequestAdapter
  | RequestDevice
  | GetContext
  | InitCall init_call
  | CreateBuffer handle nat nat
  | DestroyBuffer handle
  | DestroyDevice nat
  | WriteBuffer handle nat "real list" nat nat
  | CreateCommandEncoder
  | BeginRenderPass
  | SetBindGroup nat
  | SetPipeline topology
  | SetVertexBuffer nat handle
  | Draw real
  | EndPass
  | Submit

record GpuState =
  calls :: "gpu_call list"
  fresh :: handle

definition logCall :: "gpu_call \<Rightarrow> GpuState \<Rightarrow> GpuState" where
  "logCall c g = g\<lparr> calls := calls g @ [c] \<rparr>"

definition createBuffer :: "GpuState \<Rightarrow> nat \<Rightarrow> nat \<Rightarrow> handle \<times> GpuState" where
  "createBuffer g byteSize usage =
     (fresh g, g\<lparr> calls := calls g @ [CreateBuffer (fresh g) byteSize usage], fresh := Suc (fresh g) \<rparr>)"

definition writeBuffer :: "GpuState \<Rightarrow> handle \<Rightarrow> nat \<Rightarrow> real list \<Rightarrow> nat \<Rightarrow> nat \<Rightarrow> GpuState" where
  "writeBuffer g h bufferOffset vs dataOffset n = logCall (WriteBuffer h bufferOffset vs dataOffset n) g"

definition FLOATS_PER_VERTEX :: nat where "FLOATS_PER_VERTEX = 6"
definition BYTES_PER_FLOAT :: nat where "BYTES_PER_FLOAT = 4"
definition STRIDE_BYTES :: nat where "STRIDE_BYTES = FLOATS_PER_VERTEX * BYTES_PER_FLOAT"
definition EDGE_SEGMENTS :: nat where "EDGE_SEGMENTS = 28"

definition GPU_BUFFER_USAGE_COPY_DST :: nat where "GPU_BUFFER_USAGE_COPY_DST = 8"
definition GPU_BUFFER_USAGE_VERTEX :: nat where "GPU_BUFFER_USAGE_VERTEX = 32"
definition GPU_BUFFER_USAGE_UNIFORM :: nat where "GPU_BUFFER_USAGE_UNIFORM = 64"

type_synonym color = "real \<times> real \<times> real \<times> real"

definition NODE_COLOR :: color where "NODE_COLOR = (14 / 100, 21 / 100, 31 / 100, 94 / 100)"
definition EDGE_COLOR :: color where "EDGE_COLOR = (33 / 100, 89 / 100, 84 / 100, 95 / 100)"

section \<open>Dynamic vertex buffers\<close>

record DynamicVertexBuffer =
  buffer :: "handle option"
  capacityBytes :: nat
  vertexCount :: real

text \<open>The value \<open>{ buffer: null, capacityBytes: 0, vertexCount: 0 }\<close> that both buffer
  refs start with and that teardown puts back.\<close>

definition emptyBuffer :: DynamicVertexBuffer where
  "emptyBuffer = \<lparr> buffer = None, capacityBytes = 0, vertexCount = 0 \<rparr>"

text \<open>A vertex array is the flat \<open>number[]\<close> the code pushes six numbers per vertex to.\<close>

definition appendVertex :: "real list \<Rightarrow> real \<Rightarrow> real \<Rightarrow> color \<Rightarrow> real list" where
  "appendVertex vertices x y c = (case c of (c0, c1, c2, c3) \<Rightarrow> vertices @ [x, y, c0, c1, c2, c3])"

definition ensureVertexBuffer ::
  "GpuState \<Rightarrow> DynamicVertexBuffer \<Rightarrow> nat \<Rightarrow> GpuState \<times> DynamicVertexBuffer" where
  "ensureVertexBuffer g state requiredBytes =
     (if buffer state \<noteq> None \<and> capacityBytes state \<ge> requiredBytes then (g, state)
      else
        let g1 = (case buffer state of Some h \<Rightarrow> logCall (DestroyBuffer h) g | None \<Rightarrow> g);
            cap = max 4096 (max requiredBytes (capacityBytes state * 2));
            (h', g2) = createBuffer g1 cap (GPU_BUFFER_USAGE_VERTEX OR GPU_BUFFER_USAGE_COPY_DST)
        in (g2, state\<lparr> capacityBytes := cap, buffer := Some h' \<rparr>))"

text \<open>\<open>uploadVertices\<close>: \<open>new Float32Array(data).byteLength\<close> is four bytes per element;
  the rounding of each number to single precision is not modelled.\<close>

definition uploadVertices ::
  "GpuState \<Rightarrow> DynamicVertexBuffer \<Rightarrow> real list \<Rightarrow> GpuState \<times> DynamicVertexBuffer" where
  "uploadVertices g state vs =
     (let state1 = state\<lparr> vertexCount := real (length vs) / real FLOATS_PER_VERTEX \<rparr> in
      if length vs = 0 then (g, state1)
      else
        let (g1, state2) = ensureVertexBuffer g state1 (BYTES_PER_FLOAT * length vs) in
        case buffer state2 of
          None \<Rightarrow> (g1, state2)
        | Some h \<Rightarrow> (writeBuffer g1 h 0 vs 0 (length vs), state2))"

text \<open>A sequence of uploads into one buffer, as successive frames make them.\<close>

definition uploadAll ::
  "GpuState \<times> DynamicVertexBuffer \<Rightarrow> real list list \<Rightarrow> GpuState \<times> DynamicVertexBuffer" where
  "uploadAll = foldl (\<lambda>gs vs. uploadVertices (fst gs) (snd gs) vs)"

section \<open>The renderer's state\<close>

record SceneSnapshot =
  edges :: "EdgeType list"
  nodes :: "NodeType list"
  viewport :: ViewportType

text \<open>The canvas element: its backing size, and the bounding box of its host element
  (\<open>canvas.parentElement ?? canvas\<close>) as \<open>getBoundingClientRect\<close> reports it.\<close>

record Canvas =
  canvas_width :: nat
  canvas_height :: nat
  rect_width :: real
  rect_height :: real

text \<open>The runtime: the device, the canvas context and the uniform buffer; the bind group
  and the two pipelines are objects made from them once, and the draw calls name the
  pipelines by their topology.\<close>

record Runtime =
  device :: nat
  gpuContext :: nat
  uniformBuffer :: handle

text \<open>\<open>navigator.gpu\<close>: the property may be missing, present with no value, or present.\<close>

datatype navigator_gpu = NoGpuProperty | GpuNullish | GpuPresent

text \<open>Where the asynchronous \<open>initialize\<close> stands: not called, suspended at the first
  \<open>await\<close>, suspended at the second, or over.\<close>

datatype init_pc = NotStarted | AwaitingAdapter | AwaitingDevice | Finished

text \<open>
  One mounted renderer: the refs of the component, the calls made to \<open>setRuntimeError\<close>
  in order (the state \<open>runtimeError\<close> is the last value set, \<open>null\<close> before the first
  call), the \<open>disposed\<close> variable of the initialization effect and the position of
  \<open>initialize\<close>, and the environment: \<open>navigator.gpu\<close>, \<open>window.devicePixelRatio\<close> and
  the GPU.
\<close>

record Renderer =
  canvasRef :: "Canvas option"
  runtimeRef :: "Runtime option"
  dprRef :: real
  sceneRef :: SceneSnapshot
  edgeBufferRef :: DynamicVertexBuffer
  nodeBufferRef :: DynamicVertexBuffer
  setRuntimeErrorCalls :: "string option list"
  disposed :: bool
  pc :: init_pc
  navigatorGpu :: navigator_gpu
  devicePixelRatio :: real
  gpu :: GpuState

definition runtimeError :: "Renderer \<Rightarrow> string option" where
  "runtimeError r = (if setRuntimeErrorCalls r = [] then None else last (setRuntimeErrorCalls r))"

definition setRuntimeError :: "string option \<Rightarrow> Renderer \<Rightarrow> Renderer" where
  "setRuntimeError v r = r\<lparr> setRuntimeErrorCalls := setRuntimeErrorCalls r @ [v] \<rparr>"

definition browserHasWebGpu :: "Renderer \<Rightarrow> bool" where
  "browserHasWebGpu r \<longleftrightarrow> navigatorGpu r \<noteq> NoGpuProperty"

definition statusText :: "Renderer \<Rightarrow> string option" where
  "statusText r =
     (if \<not> browserHasWebGpu r then Some ''WebGPU is unavailable in this browser.''
      else runtimeError r)"

section \<open>Per-frame vertex generation and drawing\<close>

text \<open>The loop \<open>for (i = 1; i <= EDGE_SEGMENTS; i += 1)\<close> of one edge, with its two
  loop-carried values: \<open>previous\<close> and the vertex array.\<close>

function edgeLoop ::
  "ViewportType \<Rightarrow> real \<Rightarrow> EdgeCurve \<Rightarrow> nat \<Rightarrow> Point \<Rightarrow> real list \<Rightarrow> real list" where
  "edgeLoop sceneViewport dpr curve i previous edgeVertices =
     (if i \<le> EDGE_SEGMENTS then
        let t = real i / real EDGE_SEGMENTS;
            next = cubicBezierPoint t curve;
            p0 = worldPointToBoard previous sceneViewport;
            p1 = worldPointToBoard next sceneViewport;
            vs1 = appendVertex edgeVertices (px p0 * dpr) (py p0 * dpr) EDGE_COLOR;
            vs2 = appendVertex vs1 (px p1 * dpr) (py p1 * dpr) EDGE_COLOR
        in edgeLoop sceneViewport dpr curve (i + 1) next vs2
      else edgeVertices)"
  by pat_completeness auto
termination
  by (relation "measure (\<lambda>(sceneViewport, dpr, curve, i, previous, edgeVertices). Suc EDGE_SEGMENTS - i)") auto

declare edgeLoop.simps [simp del]

text \<open>The callback of \<open>sceneEdges.forEach\<close>: \<open>nodeMap.get\<close> of a missing id is
  \<open>undefined\<close>, and the callback returns without a vertex.\<close>

definition appendEdge ::
  "(string \<rightharpoonup> NodeType) \<Rightarrow> ViewportType \<Rightarrow> real \<Rightarrow> real list \<Rightarrow> EdgeType \<Rightarrow> real list" where
  "appendEdge nodeMap sceneViewport dpr edgeVertices edge =
     (case nodeMap (source edge) of
        None \<Rightarrow> edgeVertices
      | Some sourceNode \<Rightarrow>
          (case nodeMap (target edge) of
             None \<Rightarrow> edgeVertices
           | Some targetNode \<Rightarrow>
               let curve = getEdgeCurve sourceNode targetNode;
                   previous = cubicBezierPoint 0 curve
               in edgeLoop sceneViewport dpr curve 1 previous edgeVertices))"

text \<open>The callback of \<open>sceneNodes.forEach\<close>.\<close>

definition appendNode :: "ViewportType \<Rightarrow> real \<Rightarrow> real list \<Rightarrow> NodeType \<Rightarrow> real list" where
  "appendNode sceneViewport dpr nodeVertices node =
     (let topLeft = worldPointToBoard (position node) sceneViewport;
          x = px topLeft * dpr;
          y = py topLeft * dpr;
          w = width node * zoom sceneViewport * dpr;
          h = height node * zoom sceneViewport * dpr;
          vs1 = appendVertex nodeVertices x y NODE_COLOR;
          vs2 = appendVertex vs1 (x + w) y NODE_COLOR;
          vs3 = appendVertex vs2 x (y + h) NODE_COLOR;
          vs4 = appendVertex vs3 (x + w) y NODE_COLOR;
          vs5 = appendVertex vs4 (x + w) (y + h) NODE_COLOR
      in appendVertex vs5 x (y + h) NODE_COLOR)"

definition buildEdgeVertices :: "SceneSnapshot \<Rightarrow> real \<Rightarrow> real list" where
  "buildEdgeVertices scene dpr =
     foldl (appendEdge (createNodeMap (nodes scene)) (viewport scene) dpr) [] (edges scene)"

definition buildNodeVertices :: "SceneSnapshot \<Rightarrow> real \<Rightarrow> real list" where
  "buildNodeVertices scene dpr = foldl (appendNode (viewport scene) dpr) [] (nodes scene)"

text \<open>One optional draw call of the render pass: \<open>if (vertexCount > 0 && buffer)\<close>.\<close>

definition drawCalls :: "topology \<Rightarrow> DynamicVertexBuffer \<Rightarrow> gpu_call list" where
  "drawCalls topo b =
     (case buffer b of
        Some h \<Rightarrow>
          if vertexCount b > 0 then [SetPipeline topo, SetVertexBuffer 0 h, Draw (vertexCount b)]
          else []
      | None \<Rightarrow> [])"

definition draw :: "Renderer \<Rightarrow> Renderer" where
  "draw r =
     (case runtimeRef r of
        None \<Rightarrow> r
      | Some runtime \<Rightarrow>
          (case canvasRef r of
             None \<Rightarrow> r
           | Some canvas \<Rightarrow>
               if canvas_width canvas = 0 \<or> canvas_height canvas = 0 then r
               else
                 let edgeVertices = buildEdgeVertices (sceneRef r) (dprRef r);
                     nodeVertices = buildNodeVertices (sceneRef r) (dprRef r);
                     (g1, eb) = uploadVertices (gpu r) (edgeBufferRef r) edgeVertices;
                     (g2, nb) = uploadVertices g1 (nodeBufferRef r) nodeVertices;
                     g3 = g2\<lparr> calls := calls g2
                             @ [CreateCommandEncoder, BeginRenderPass, SetBindGroup 0]
                             @ drawCalls TriangleList nb
                             @ drawCalls LineList eb
                             @ [EndPass, Submit] \<rparr>
                 in r\<lparr> gpu := g3, edgeBufferRef := eb, nodeBufferRef := nb \<rparr>))"

definition syncCanvasSize :: "Renderer \<Rightarrow> Renderer" where
  "syncCanvasSize r =
     (case runtimeRef r of
        None \<Rightarrow> r
      | Some runtime \<Rightarrow>
          (case canvasRef r of
             None \<Rightarrow> r
           | Some canvas \<Rightarrow>
               let dpr = (if devicePixelRatio r = 0 then 1 else devicePixelRatio r);
                   w = nat (max 1 \<lfloor>rect_width canvas * dpr\<rfloor>);
                   h = nat (max 1 \<lfloor>rect_height canvas * dpr\<rfloor>);
                   canvas' = (if canvas_width canvas \<noteq> w \<or> canvas_height canvas \<noteq> h
                              then canvas\<lparr> canvas_width := w, canvas_height := h \<rparr> else canvas)
               in r\<lparr> canvasRef := Some canvas', dprRef := dpr,
                     gpu := writeBuffer (gpu r) (uniformBuffer runtime) 0 [real w, real h, 0, 0] 0 4 \<rparr>))"

section \<open>Initialization, teardown and their interleaving\<close>

text \<open>
  A promise settles by resolving to a value or by rejecting.  A run of a stretch of
  \<open>initialize\<close> ends suspended at an \<open>await\<close>, by returning, or by throwing; each carries
  the state it leaves.
\<close>

datatype 'a settled = Resolved 'a | Rejected

datatype 'a outcome = Suspended 'a | Returned 'a | Thrown 'a

text \<open>What the host answers during the second stretch: the result of
  \<open>canvas.getContext("webgpu")\<close> and the call of the resource setup that throws, if one
  does.\<close>

record InitEnv =
  getContextResult :: "nat option"
  throwsAt :: "init_call option"

definition logGpu :: "gpu_call \<Rightarrow> Renderer \<Rightarrow> Renderer" where
  "logGpu c r = r\<lparr> gpu := logCall c (gpu r) \<rparr>"

text \<open>The calls of the setup in program order, up to a throwing one: \<open>Inl\<close> when a call
  throws (it was made), \<open>Inr\<close> when all return.\<close>

fun runCalls :: "init_call option \<Rightarrow> init_call list \<Rightarrow> GpuState \<Rightarrow> GpuState + GpuState" where
  "runCalls f [] g = Inr g"
| "runCalls f (c # cs) g =
     (if f = Some c then Inl (logCall (InitCall c) g)
      else runCalls f cs (logCall (InitCall c) g))"

definition callsBeforeUniformBuffer :: "init_call list" where
  "callsBeforeUniformBuffer =
     [GetPreferredCanvasFormat, Configure, CreateShaderModule, CreateBindGroupLayout,
      CreatePipelineLayout, CreateTrianglePipeline, CreateLinePipeline]"

text \<open>The effect body: without a canvas or without \<open>navigator.gpu\<close> it returns at once;
  otherwise it sets \<open>disposed = false\<close> and calls \<open>initialize\<close>, which runs up to its
  first \<open>await\<close>.\<close>

definition mount :: "Renderer \<Rightarrow> Renderer" where
  "mount r =
     (case canvasRef r of
        None \<Rightarrow> r
      | Some canvas \<Rightarrow>
          if navigatorGpu r \<noteq> GpuPresent then r
          else logGpu RequestAdapter (r\<lparr> disposed := False, pc := AwaitingAdapter \<rparr>))"

text \<open>From the first \<open>await\<close> to the second: the body of the \<open>try\<close> block.\<close>

definition afterAdapter :: "nat option settled \<Rightarrow> Renderer \<Rightarrow> Renderer outcome" where
  "afterAdapter res r =
     (case res of
        Rejected \<Rightarrow> Thrown r
      | Resolved None \<Rightarrow>
          Returned (if \<not> disposed r then setRuntimeError (Some ''WebGPU adapter is unavailable.'') r
                    else r)
      | Resolved (Some adapter) \<Rightarrow> Suspended (logGpu RequestDevice (r\<lparr> pc := AwaitingDevice \<rparr>)))"

text \<open>From the second \<open>await\<close> to the end of the \<open>try\<close> block.\<close>

definition afterDevice :: "nat settled \<Rightarrow> InitEnv \<Rightarrow> Renderer \<Rightarrow> Renderer outcome" where
  "afterDevice res env r =
     (case res of
        Rejected \<Rightarrow> Thrown r
      | Resolved dev \<Rightarrow>
          if disposed r then Returned r
          else
            let r1 = logGpu GetContext r in
            (case getContextResult env of
               None \<Rightarrow>
                 Returned (if \<not> disposed r1
                           then setRuntimeError (Some ''Failed to acquire WebGPU context.'') r1
                           else r1)
             | Some ctx \<Rightarrow>
                 (case runCalls (throwsAt env) callsBeforeUniformBuffer (gpu r1) of
                    Inl g \<Rightarrow> Thrown (r1\<lparr> gpu := g \<rparr>)
                  | Inr g \<Rightarrow>
                      if throwsAt env = Some CreateUniformBuffer
                      then Thrown (r1\<lparr> gpu := logCall (InitCall CreateUniformBuffer) g \<rparr>)
                      else
                        let (uniform, g1) =
                              createBuffer g 16 (GPU_BUFFER_USAGE_UNIFORM OR GPU_BUFFER_USAGE_COPY_DST)
                        in
                        (case runCalls (throwsAt env) [CreateBindGroup] g1 of
                           Inl g2 \<Rightarrow> Thrown (r1\<lparr> gpu := g2 \<rparr>)
                         | Inr g2 \<Rightarrow>
                             let r2 = r1\<lparr> gpu := g2,
                                         runtimeRef := Some \<lparr> device = dev, gpuContext = ctx,
                                                             uniformBuffer = uniform \<rparr> \<rparr>
                             in Returned (if \<not> disposed r2
                                          then draw (syncCanvasSize (setRuntimeError None r2))
                                          else r2)))))"

text \<open>The \<open>catch\<close> block of \<open>initialize\<close>.\<close>

definition catchInit :: "Renderer outcome \<Rightarrow> Renderer outcome" where
  "catchInit out =
     (case out of
        Thrown r \<Rightarrow>
          Returned (if \<not> disposed r then setRuntimeError (Some ''Failed to initialize WebGPU device.'') r
                    else r)
      | Suspended r \<Rightarrow> Suspended r
      | Returned r \<Rightarrow> Returned r)"

text \<open>The state a stretch leaves; \<open>initialize\<close> is over unless it is suspended.\<close>

definition settle :: "Renderer outcome \<Rightarrow> Renderer" where
  "settle out =
     (case out of
        Suspended r \<Rightarrow> r
      | Returned r \<Rightarrow> r\<lparr> pc := Finished \<rparr>
      | Thrown r \<Rightarrow> r\<lparr> pc := Finished \<rparr>)"

text \<open>The cleanup of the initialization effect.\<close>

definition teardown :: "Renderer \<Rightarrow> Renderer" where
  "teardown r =
     (let g1 = (case buffer (edgeBufferRef r) of
                  Some h \<Rightarrow> logCall (DestroyBuffer h) (gpu r) | None \<Rightarrow> gpu r);
          g2 = (case buffer (nodeBufferRef r) of
                  Some h \<Rightarrow> logCall (DestroyBuffer h) g1 | None \<Rightarrow> g1);
          g3 = (case runtimeRef r of
                  Some runtime \<Rightarrow>
                    logCall (DestroyDevice (device runtime))
                      (logCall (DestroyBuffer (uniformBuffer runtime)) g2)
                | None \<Rightarrow> g2)
      in r\<lparr> disposed := True, gpu := g3, edgeBufferRef := emptyBuffer,
            nodeBufferRef := emptyBuffer, runtimeRef := None \<rparr>)"

text \<open>
  What can happen to a mounted renderer, one event at a time on the single cooperative
  thread: a pending promise of \<open>initialize\<close> settles and \<open>initialize\<close> runs to its next
  \<open>await\<close> or to its end; the cleanup runs; the host publishes a new scene and draws; the
  container is resized.  A settlement that \<open>initialize\<close> is not waiting for does nothing.
\<close>

datatype event =
    AdapterSettled "nat option settled"
  | DeviceSettled "nat settled" InitEnv
  | Teardown
  | SceneChanged SceneSnapshot
  | Resized real real real

fun step :: "Renderer \<Rightarrow> event \<Rightarrow> Renderer" where
  "step r (AdapterSettled res) =
     (if pc r = AwaitingAdapter then settle (catchInit (afterAdapter res r)) else r)"
| "step r (DeviceSettled res env) =
     (if pc r = AwaitingDevice then settle (catchInit (afterDevice res env r)) else r)"
| "step r Teardown = teardown r"
| "step r (SceneChanged scene) = draw (r\<lparr> sceneRef := scene \<rparr>)"
| "step r (Resized w h ratio) =
     draw (syncCanvasSize
       (r\<lparr> canvasRef := map_option (\<lambda>c. c\<lparr> rect_width := w, rect_height := h \<rparr>) (canvasRef r),
           devicePixelRatio := ratio \<rparr>))"

definition run :: "Renderer \<Rightarrow> event list \<Rightarrow> Renderer" where
  "run = foldl step"

text \<open>The error kinds of the specification and the status string the code has for each.\<close>

datatype error_kind = CapabilityUnavailable | AdapterUnavailable | DeviceInitFailed | SurfaceUnavailable

fun statusOf :: "error_kind \<Rightarrow> string" where
  "statusOf CapabilityUnavailable = ''WebGPU is unavailable in this browser.''"
| "statusOf AdapterUnavailable = ''WebGPU adapter is unavailable.''"
| "statusOf DeviceInitFailed = ''Failed to initialize WebGPU device.''"
| "statusOf SurfaceUnavailable = ''Failed to acquire WebGPU context.''"

text \<open>The parts of the state that the component shares with \<open>initialize\<close>.\<close>

definition shared ::
  "Renderer \<Rightarrow> Runtime option \<times> string option list \<times> DynamicVertexBuffer \<times> DynamicVertexBuffer
     \<times> Canvas option \<times> real \<times> SceneSnapshot" where
  "shared r = (runtimeRef r, setRuntimeErrorCalls r, edgeBufferRef r, nodeBufferRef r,
               canvasRef r, dprRef r, sceneRef r)"

text \<open>The outcome of a failed initialization step: exactly one more call of
  \<open>setRuntimeError\<close>, with the status string of the kind; no runtime is installed and
  \<open>initialize\<close> is over.\<close>

definition failsWith :: "error_kind \<Rightarrow> Renderer \<Rightarrow> Renderer \<Rightarrow> bool" where
  "failsWith k r r' \<longleftrightarrow>
     setRuntimeErrorCalls r' = setRuntimeErrorCalls r @ [Some (statusOf k)] \<and>
     runtimeError r' = Some (statusOf k) \<and>
     runtimeRef r' = runtimeRef r \<and> pc r' = Finished"

text \<open>How often \<open>requestAdapter\<close> has been called.\<close>

definition adapterRequests :: "GpuState \<Rightarrow> nat" where
  "adapterRequests g = length (filter (\<lambda>c. c = RequestAdapter) (calls g))"

section \<open>Sample inputs\<close>

definition nodeA :: NodeType where
  "nodeA = \<lparr> node_id = ''A'', position = \<lparr> px = 0, py = 0 \<rparr>, width = 10, height = 20 \<rparr>"

definition nodeB :: NodeType where
  "nodeB = \<lparr> node_id = ''B'', position = \<lparr> px = 5, py = 5 \<rparr>, width = 30, height = 10 \<rparr>"

definition edgeAB :: EdgeType where
  "edgeAB = \<lparr> source = ''A'', target = ''B'' \<rparr>"

definition edgeDangling :: EdgeType where
  "edgeDangling = \<lparr> source = ''A'', target = ''missing'' \<rparr>"

definition sampleViewport :: ViewportType where
  "sampleViewport = \<lparr> offsetX = 10, offsetY = 20, zoom = 2 \<rparr>"

definition sampleScene :: SceneSnapshot where
  "sampleScene = \<lparr> edges = [edgeAB, edgeDangling], nodes = [nodeA, nodeB], viewport = sampleViewport \<rparr>"

definition sampleCanvas :: Canvas where
  "sampleCanvas = \<lparr> canvas_width = 300, canvas_height = 150, rect_width = 300, rect_height = 150 \<rparr>"

text \<open>A renderer before its initialization effect has run, in a browser with WebGPU.\<close>

definition unmountedRenderer :: Renderer where
  "unmountedRenderer =
     \<lparr> canvasRef = Some sampleCanvas, runtimeRef = None, dprRef = 1, sceneRef = sampleScene,
       edgeBufferRef = emptyBuffer, nodeBufferRef = emptyBuffer, setRuntimeErrorCalls = [],
       disposed = False, pc = NotStarted, navigatorGpu = GpuPresent, devicePixelRatio = 1,
       gpu = \<lparr> calls = [], fresh = 0 \<rparr> \<rparr>"

text \<open>A renderer whose initialization has succeeded and that has not drawn yet.\<close>

definition readyRenderer :: Renderer where
  "readyRenderer =
     \<lparr> canvasRef = Some sampleCanvas,
       runtimeRef = Some \<lparr> device = 0, gpuContext = 0, uniformBuffer = 0 \<rparr>,
       dprRef = 1, sceneRef = sampleScene,
       edgeBufferRef = emptyBuffer, nodeBufferRef = emptyBuffer, setRuntimeErrorCalls = [None],
       disposed = False, pc = Finished, navigatorGpu = GpuPresent, devicePixelRatio = 1,
       gpu = \<lparr> calls = [], fresh = 1 \<rparr> \<rparr>"

text \<open>A renderer that has drawn the sample scene before: both buffers are allocated.\<close>

definition drawnRenderer :: Renderer where
  "drawnRenderer =
     readyRenderer
       \<lparr> edgeBufferRef := \<lparr> buffer = Some 1, capacityBytes = 4096, vertexCount = 56 \<rparr>,
         nodeBufferRef := \<lparr> buffer = Some 2, capacityBytes = 4096, vertexCount = 12 \<rparr>,
         gpu := \<lparr> calls = [], fresh = 3 \<rparr> \<rparr>"

definition emptyScene :: SceneSnapshot where
  "emptyScene = \<lparr> edges = [], nodes = [], viewport = sampleViewport \<rparr>"

definition configureThrows :: InitEnv where
  "configureThrows = \<lparr> getContextResult = Some 0, throwsAt = Some Configure \<rparr>"

definition setupSucceeds :: InitEnv where
  "setupSucceeds = \<lparr> getContextResult = Some 0, throwsAt = None \<rparr>"

section \<open>Geometry: edge curves\<close>

text \<open>
  Claim C6.  For every pair of nodes, \<open>getEdgeCurve\<close> anchors the curve at the centres of
  the two rectangles, \<open>(sx, sy)\<close> and \<open>(tx, ty)\<close>, and its control points are
  \<open>x1 = sx + 0.35 * dx\<close>, \<open>y1 = sy\<close>, \<open>x2 = tx - 0.35 * dx\<close>, \<open>y2 = ty\<close> with
  \<open>dx = tx - sx\<close>.  When the source centre is \<open>(0, 0)\<close> and the target centre is
  \<open>(100, 0)\<close> the curve has \<open>x1 = 35\<close>, \<open>y1 = 0\<close>, \<open>x2 = 65\<close>, \<open>y2 = 0\<close>, \<open>tx = 100\<close>,
  \<open>ty = 0\<close>.
\<close>

theorem getEdgeCurve_control_points:
  "sx (getEdgeCurve s t) = px (position s) + width s / 2
   \<and> sy (getEdgeCurve s t) = py (position s) + height s / 2
   \<and> tx (getEdgeCurve s t) = px (position t) + width t / 2
   \<and> ty (getEdgeCurve s t) = py (position t) + height t / 2
   \<and> x1 (getEdgeCurve s t) = sx (getEdgeCurve s t) + 0.35 * (tx (getEdgeCurve s t) - sx (getEdgeCurve s t))
   \<and> y1 (getEdgeCurve s t) = sy (getEdgeCurve s t)
   \<and> x2 (getEdgeCurve s t) = tx (getEdgeCurve s t) - 0.35 * (tx (getEdgeCurve s t) - sx (getEdgeCurve s t))
   \<and> y2 (getEdgeCurve s t) = ty (getEdgeCurve s t)
   \<and> (px (position s) + width s / 2 = 0 \<and> py (position s) + height s / 2 = 0 \<and>
       px (position t) + width t / 2 = 100 \<and> py (position t) + height t / 2 = 0 \<longrightarrow>
         x1 (getEdgeCurve s t) = 35 \<and> y1 (getEdgeCurve s t) = 0 \<and>
         x2 (getEdgeCurve s t) = 65 \<and> y2 (getEdgeCurve s t) = 0 \<and>
         tx (getEdgeCurve s t) = 100 \<and> ty (getEdgeCurve s t) = 0)"
  by (simp add: getEdgeCurve_def Let_def)

theorem getEdgeCurve_control_points_witness:
  "px (position \<lparr> node_id = ''s'', position = \<lparr> px = -5, py = -5 \<rparr>, width = 10, height = 10 \<rparr>)
      + width \<lparr> node_id = ''s'', position = \<lparr> px = -5, py = -5 \<rparr>, width = 10, height = 10 \<rparr> / 2 = 0
   \<and> px (position \<lparr> node_id = ''t'', position = \<lparr> px = 90, py = -10 \<rparr>, width = 20, height = 20 \<rparr>)
      + width \<lparr> node_id = ''t'', position = \<lparr> px = 90, py = -10 \<rparr>, width = 20, height = 20 \<rparr> / 2 = 100
   \<and> x1 (getEdgeCurve \<lparr> node_id = ''s'', position = \<lparr> px = -5, py = -5 \<rparr>, width = 10, height = 10 \<rparr>
                        \<lparr> node_id = ''t'', position = \<lparr> px = 90, py = -10 \<rparr>, width = 20, height = 20 \<rparr>) = 35
   \<and> x2 (getEdgeCurve \<lparr> node_id = ''s'', position = \<lparr> px = -5, py = -5 \<rparr>, width = 10, height = 10 \<rparr>
                        \<lparr> node_id = ''t'', position = \<lparr> px = 90, py = -10 \<rparr>, width = 20, height = 20 \<rparr>) = 65"
  using getEdgeCurve_control_points
    [of "\<lparr> node_id = ''s'', position = \<lparr> px = -5, py = -5 \<rparr>, width = 10, height = 10 \<rparr>"
        "\<lparr> node_id = ''t'', position = \<lparr> px = 90, py = -10 \<rparr>, width = 20, height = 20 \<rparr>"]
  by simp

text \<open>
  Claim C7.  For every curve and every \<open>t\<close> (in particular every \<open>t\<close> in \<open>[0, 1]\<close>),
  \<open>cubicBezierPoint t curve\<close> is the cubic Bernstein value
  \<open>(1 - t)^3 P0 + 3 (1 - t)^2 t P1 + 3 (1 - t) t^2 P2 + t^3 P3\<close> in each coordinate, and the
  end points are exact: at \<open>t = 0\<close> it is \<open>(sx, sy)\<close> and at \<open>t = 1\<close> it is \<open>(tx, ty)\<close>.
\<close>

theorem cubicBezierPoint_bernstein:
  "cubicBezierPoint t c =
     \<lparr> px = (1 - t)^3 * sx c + 3 * (1 - t)^2 * t * x1 c + 3 * (1 - t) * t^2 * x2 c + t^3 * tx c,
       py = (1 - t)^3 * sy c + 3 * (1 - t)^2 * t * y1 c + 3 * (1 - t) * t^2 * y2 c + t^3 * ty c \<rparr>
   \<and> cubicBezierPoint 0 c = \<lparr> px = sx c, py = sy c \<rparr>
   \<and> cubicBezierPoint 1 c = \<lparr> px = tx c, py = ty c \<rparr>"
  by (simp add: cubicBezierPoint_def Let_def power2_eq_square power3_eq_cube)

section \<open>Geometry: hit testing\<close>

lemma scanDown_find:
  "k \<le> length ns \<Longrightarrow>
   scanDown ns wx wy k = List.find (isPointInsideNode wx wy) (rev (take k ns))"
proof (induction k)
  case 0
  then show ?case by simp
next
  case (Suc k)
  then have "take (Suc k) ns = take k ns @ [ns ! k]"
    by (simp add: take_Suc_conv_app_nth)
  with Suc show ?case by simp
qed

lemma scanDown_None:
  "scanDown ns wx wy k = None \<longleftrightarrow> (\<forall>i<k. \<not> isPointInsideNode wx wy (ns ! i))"
  by (induction k) (auto simp: less_Suc_eq)

lemma scanDown_Some:
  "scanDown ns wx wy k = Some n \<Longrightarrow>
   \<exists>i<k. n = ns ! i \<and> isPointInsideNode wx wy n \<and>
     (\<forall>j<k. i < j \<longrightarrow> \<not> isPointInsideNode wx wy (ns ! j))"
proof (induction k)
  case 0
  then show ?case by simp
next
  case (Suc k)
  show ?case
  proof (cases "isPointInsideNode wx wy (ns ! k)")
    case True
    with Suc.prems have "n = ns ! k" by simp
    with True show ?thesis by (intro exI[of _ k]) auto
  next
    case False
    with Suc.prems have "scanDown ns wx wy k = Some n" by simp
    from Suc.IH[OF this] obtain i where i: "i < k" "n = ns ! i" "isPointInsideNode wx wy n"
      "\<forall>j<k. i < j \<longrightarrow> \<not> isPointInsideNode wx wy (ns ! j)" by blast
    with False show ?thesis by (intro exI[of _ i]) (auto simp: less_Suc_eq)
  qed
qed

text \<open>
  Claim C8.  For every node list and point, \<open>getTopNodeAtPoint\<close> scans the list in reverse
  and returns the first node whose rectangle contains the point, boundary included: the
  result is the node at the largest index that contains the point, and it is nothing
  exactly when no node contains the point.  For nodes \<open>A\<close> then \<open>B\<close> that both contain
  \<open>(5, 5)\<close> the result is \<open>B\<close>.
\<close>

theorem getTopNodeAtPoint_topmost:
  "getTopNodeAtPoint ns wx wy = List.find (isPointInsideNode wx wy) (rev ns)
   \<and> (getTopNodeAtPoint ns wx wy = None \<longleftrightarrow> (\<forall>n\<in>set ns. \<not> isPointInsideNode wx wy n))
   \<and> (\<forall>n. getTopNodeAtPoint ns wx wy = Some n \<longrightarrow>
         (\<exists>i<length ns. n = ns ! i \<and> isPointInsideNode wx wy n \<and>
            (\<forall>j<length ns. i < j \<longrightarrow> \<not> isPointInsideNode wx wy (ns ! j))))
   \<and> (isPointInsideNode wx wy m \<longleftrightarrow>
         px (position m) \<le> wx \<and> wx \<le> px (position m) + width m \<and>
         py (position m) \<le> wy \<and> wy \<le> py (position m) + height m)
   \<and> (isPointInsideNode 5 5 A \<and> isPointInsideNode 5 5 B \<longrightarrow>
         getTopNodeAtPoint [A, B] 5 5 = Some B)"
proof (intro conjI)
  show "getTopNodeAtPoint ns wx wy = List.find (isPointInsideNode wx wy) (rev ns)"
    by (simp add: getTopNodeAtPoint_def scanDown_find)
  show "getTopNodeAtPoint ns wx wy = None \<longleftrightarrow> (\<forall>n\<in>set ns. \<not> isPointInsideNode wx wy n)"
    by (simp add: getTopNodeAtPoint_def scanDown_None all_set_conv_all_nth)
  show "\<forall>n. getTopNodeAtPoint ns wx wy = Some n \<longrightarrow>
         (\<exists>i<length ns. n = ns ! i \<and> isPointInsideNode wx wy n \<and>
            (\<forall>j<length ns. i < j \<longrightarrow> \<not> isPointInsideNode wx wy (ns ! j)))"
    unfolding getTopNodeAtPoint_def using scanDown_Some by blast
  show "isPointInsideNode wx wy m \<longleftrightarrow>
         px (position m) \<le> wx \<and> wx \<le> px (position m) + width m \<and>
         py (position m) \<le> wy \<and> wy \<le> py (position m) + height m"
    by (simp add: isPointInsideNode_def)
  show "isPointInsideNode 5 5 A \<and> isPointInsideNode 5 5 B \<longrightarrow>
         getTopNodeAtPoint [A, B] 5 5 = Some B"
    by (simp add: getTopNodeAtPoint_def numeral_2_eq_2)
qed

theorem getTopNodeAtPoint_topmost_witness:
  "isPointInsideNode 5 5 nodeA \<and> isPointInsideNode 5 5 nodeB \<and>
   getTopNodeAtPoint [nodeA, nodeB] 5 5 = Some nodeB \<and>
   getTopNodeAtPoint [nodeB, nodeA] 5 5 = Some nodeA \<and>
   getTopNodeAtPoint [nodeA, nodeB] 36 5 = None"
proof -
  have a: "isPointInsideNode 5 5 nodeA" by (simp add: isPointInsideNode_def nodeA_def)
  have b: "isPointInsideNode 5 5 nodeB" by (simp add: isPointInsideNode_def nodeB_def)
  have 1: "getTopNodeAtPoint [nodeA, nodeB] 5 5 = Some nodeB"
    using getTopNodeAtPoint_topmost[of "[]" 0 0 nodeA nodeA nodeB] a b by blast
  have 2: "getTopNodeAtPoint [nodeB, nodeA] 5 5 = Some nodeA"
    using getTopNodeAtPoint_topmost[of "[]" 0 0 nodeA nodeB nodeA] a b by blast
  have "\<forall>n\<in>set [nodeA, nodeB]. \<not> isPointInsideNode 36 5 n"
    by (simp add: isPointInsideNode_def nodeA_def nodeB_def)
  then have 3: "getTopNodeAtPoint [nodeA, nodeB] 36 5 = None"
    using getTopNodeAtPoint_topmost[of "[nodeA, nodeB]" 36 5 nodeA nodeA nodeB] by blast
  from a b 1 2 3 show ?thesis by blast
qed

section \<open>Geometry: bounds\<close>

lemma foldl_boundsStep:
  "foldl boundsStep (a, b, c, d) ns =
     (fold min (map (\<lambda>n. px (position n)) ns) a,
      fold min (map (\<lambda>n. py (position n)) ns) b,
      fold max (map (\<lambda>n. px (position n) + width n) ns) c,
      fold max (map (\<lambda>n. py (position n) + height n) ns) d)"
  by (induction ns arbitrary: a b c d) (simp_all add: boundsStep_def min.commute max.commute)

text \<open>
  Claim C9.  \<open>getNodesBounds\<close> returns \<open>undefined\<close> exactly when the node list is empty.
  For a non-empty list it returns the least left and top edges and the greatest right
  and bottom edges over all node rectangles, with \<open>width = maxX - minX\<close>,
  \<open>height = maxY - minY\<close> and the centre at the midpoint of the bounds.  For the single
  node at \<open>(0, 0)\<close> of width 10 and height 20 the result is \<open>minX = 0\<close>, \<open>minY = 0\<close>,
  \<open>maxX = 10\<close>, \<open>maxY = 20\<close>, \<open>width = 10\<close>, \<open>height = 20\<close>, \<open>centerX = 5\<close>,
  \<open>centerY = 10\<close>.
\<close>

theorem getNodesBounds_fold:
  "(getNodesBounds ns = None \<longleftrightarrow> ns = [])
   \<and> (ns \<noteq> [] \<longrightarrow> (\<exists>b. getNodesBounds ns = Some b
        \<and> minX b = Min (set (map (\<lambda>n. px (position n)) ns))
        \<and> minY b = Min (set (map (\<lambda>n. py (position n)) ns))
        \<and> maxX b = Max (set (map (\<lambda>n. px (position n) + width n) ns))
        \<and> maxY b = Max (set (map (\<lambda>n. py (position n) + height n) ns))
        \<and> NodeBounds.width b = maxX b - minX b
        \<and> NodeBounds.height b = maxY b - minY b
        \<and> centerX b = (minX b + maxX b) / 2
        \<and> centerY b = (minY b + maxY b) / 2))
   \<and> getNodesBounds [\<lparr> node_id = i, position = \<lparr> px = 0, py = 0 \<rparr>, width = 10, height = 20 \<rparr>]
       = Some \<lparr> centerX = 5, centerY = 10, height = 20, maxX = 10, maxY = 20,
                minX = 0, minY = 0, width = 10 \<rparr>"
proof (intro conjI impI)
  show "getNodesBounds ns = None \<longleftrightarrow> ns = []"
    by (simp add: getNodesBounds_def Let_def split: list.splits prod.splits)
next
  assume "ns \<noteq> []"
  then obtain n0 rest where ns: "ns = n0 # rest" by (cases ns) auto
  show "\<exists>b. getNodesBounds ns = Some b
        \<and> minX b = Min (set (map (\<lambda>n. px (position n)) ns))
        \<and> minY b = Min (set (map (\<lambda>n. py (position n)) ns))
        \<and> maxX b = Max (set (map (\<lambda>n. px (position n) + width n) ns))
        \<and> maxY b = Max (set (map (\<lambda>n. py (position n) + height n) ns))
        \<and> NodeBounds.width b = maxX b - minX b
        \<and> NodeBounds.height b = maxY b - minY b
        \<and> centerX b = (minX b + maxX b) / 2
        \<and> centerY b = (minY b + maxY b) / 2"
    unfolding ns
    by (simp add: getNodesBounds_def foldl_boundsStep Let_def Min.set_eq_fold[symmetric]
        Max.set_eq_fold[symmetric] field_simps del: Min_insert Max_insert set_simps)
next
  show "getNodesBounds [\<lparr> node_id = i, position = \<lparr> px = 0, py = 0 \<rparr>, width = 10, height = 20 \<rparr>]
       = Some \<lparr> centerX = 5, centerY = 10, height = 20, maxX = 10, maxY = 20,
                minX = 0, minY = 0, width = 10 \<rparr>"
    by (simp add: getNodesBounds_def boundsStep_def)
qed

theorem getNodesBounds_fold_witness:
  "[nodeA, nodeB] \<noteq> []
   \<and> (\<exists>b. getNodesBounds [nodeA, nodeB] = Some b
        \<and> minX b = 0 \<and> minY b = 0 \<and> maxX b = 35 \<and> maxY b = 20
        \<and> NodeBounds.width b = 35 \<and> NodeBounds.height b = 20
        \<and> centerX b = 35 / 2 \<and> centerY b = 10)"
proof -
  have ne: "[nodeA, nodeB] \<noteq> []" by simp
  from getNodesBounds_fold[of "[nodeA, nodeB]" "''A''"] ne
  obtain b where b: "getNodesBounds [nodeA, nodeB] = Some b"
    "minX b = Min (set (map (\<lambda>n. px (position n)) [nodeA, nodeB]))"
    "minY b = Min (set (map (\<lambda>n. py (position n)) [nodeA, nodeB]))"
    "maxX b = Max (set (map (\<lambda>n. px (position n) + width n) [nodeA, nodeB]))"
    "maxY b = Max (set (map (\<lambda>n. py (position n) + height n) [nodeA, nodeB]))"
    "NodeBounds.width b = maxX b - minX b"
    "NodeBounds.height b = maxY b - minY b"
    "centerX b = (minX b + maxX b) / 2"
    "centerY b = (minY b + maxY b) / 2"
    by blast
  have "minX b = 0" "minY b = 0" "maxX b = 35" "maxY b = 20"
    using b(2-5) by (simp_all add: nodeA_def nodeB_def)
  with b(1,6-9) ne show ?thesis by simp
qed

section \<open>Viewport transform: the round trip\<close>

text \<open>
  Claim C2.  For every point \<open>p\<close> and every viewport \<open>v\<close> with \<open>zoom > 0\<close>,
  \<open>boardToWorld (worldToBoard p v) v = p\<close>, where \<open>worldToBoard\<close> computes
  \<open>x' = x * zoom + offsetX\<close>, \<open>y' = y * zoom + offsetY\<close> and \<open>boardToWorld\<close> computes
  \<open>x = (x' - offsetX) / zoom\<close>, \<open>y = (y' - offsetY) / zoom\<close>.  Over the reals the law is
  exact; the program meets it up to the rounding of its floating-point arithmetic.
\<close>

theorem viewport_round_trip:
  "(0 < zoom v \<longrightarrow> boardPointToWorld (worldPointToBoard p v) v = p)
   \<and> worldPointToBoard p v = \<lparr> px = px p * zoom v + offsetX v, py = py p * zoom v + offsetY v \<rparr>
   \<and> boardPointToWorld q v = \<lparr> px = (px q - offsetX v) / zoom v, py = (py q - offsetY v) / zoom v \<rparr>"
  by (simp add: worldPointToBoard_def boardPointToWorld_def)

theorem viewport_round_trip_witness:
  "0 < zoom sampleViewport
   \<and> worldPointToBoard \<lparr> px = 3, py = 4 \<rparr> sampleViewport = \<lparr> px = 16, py = 28 \<rparr>
   \<and> boardPointToWorld (worldPointToBoard \<lparr> px = 3, py = 4 \<rparr> sampleViewport) sampleViewport
       = \<lparr> px = 3, py = 4 \<rparr>"
proof -
  have z: "0 < zoom sampleViewport" by (simp add: sampleViewport_def)
  have w: "worldPointToBoard \<lparr> px = 3, py = 4 \<rparr> sampleViewport = \<lparr> px = 16, py = 28 \<rparr>"
    by (simp add: worldPointToBoard_def sampleViewport_def)
  from viewport_round_trip[of sampleViewport "\<lparr> px = 3, py = 4 \<rparr>" "\<lparr> px = 0, py = 0 \<rparr>"] z w
  show ?thesis by simp
qed

section \<open>Dynamic vertex buffers: growth\<close>

lemma usage_vertex: "GPU_BUFFER_USAGE_VERTEX OR GPU_BUFFER_USAGE_COPY_DST = 40"
  by (simp add: GPU_BUFFER_USAGE_VERTEX_def GPU_BUFFER_USAGE_COPY_DST_def)

lemma ensureVertexBuffer_keep:
  "buffer b \<noteq> None \<Longrightarrow> n \<le> capacityBytes b \<Longrightarrow> ensureVertexBuffer g b n = (g, b)"
  by (simp add: ensureVertexBuffer_def)

lemma ensureVertexBuffer_grow:
  "buffer b = None \<or> capacityBytes b < n \<Longrightarrow>
   ensureVertexBuffer g b n =
     (\<lparr> calls = calls g @ (case buffer b of Some h \<Rightarrow> [DestroyBuffer h] | None \<Rightarrow> [])
               @ [CreateBuffer (fresh g) (max 4096 (max n (capacityBytes b * 2)))
                    (GPU_BUFFER_USAGE_VERTEX OR GPU_BUFFER_USAGE_COPY_DST)],
        fresh = Suc (fresh g) \<rparr>,
      b\<lparr> capacityBytes := max 4096 (max n (capacityBytes b * 2)), buffer := Some (fresh g) \<rparr>)"
  by (auto simp: ensureVertexBuffer_def createBuffer_def logCall_def Let_def split: option.splits)

lemma uploadVertices_empty: "uploadVertices g b [] = (g, b\<lparr> vertexCount := 0 \<rparr>)"
  by (simp add: uploadVertices_def)

lemma uploadVertices_keep:
  assumes "vs \<noteq> []" "buffer b = Some h" "BYTES_PER_FLOAT * length vs \<le> capacityBytes b"
  shows "uploadVertices g b vs =
           (writeBuffer g h 0 vs 0 (length vs),
            b\<lparr> vertexCount := real (length vs) / real FLOATS_PER_VERTEX \<rparr>)"
  using assms by (simp add: uploadVertices_def ensureVertexBuffer_def)

lemma uploadVertices_grow:
  assumes "vs \<noteq> []" "buffer b = None \<or> capacityBytes b < BYTES_PER_FLOAT * length vs"
  shows "uploadVertices g b vs =
           (\<lparr> calls = calls g @ (case buffer b of Some h \<Rightarrow> [DestroyBuffer h] | None \<Rightarrow> [])
               @ [CreateBuffer (fresh g) (max 4096 (max (BYTES_PER_FLOAT * length vs) (capacityBytes b * 2)))
                    (GPU_BUFFER_USAGE_VERTEX OR GPU_BUFFER_USAGE_COPY_DST),
                  WriteBuffer (fresh g) 0 vs 0 (length vs)],
              fresh = Suc (fresh g) \<rparr>,
            b\<lparr> vertexCount := real (length vs) / real FLOATS_PER_VERTEX,
               capacityBytes := max 4096 (max (BYTES_PER_FLOAT * length vs) (capacityBytes b * 2)),
               buffer := Some (fresh g) \<rparr>)"
proof -
  let ?b1 = "b\<lparr> vertexCount := real (length vs) / real FLOATS_PER_VERTEX \<rparr>"
  from assms(2) have "buffer ?b1 = None \<or> capacityBytes ?b1 < BYTES_PER_FLOAT * length vs" by simp
  from ensureVertexBuffer_grow[OF this, of g] assms(1) show ?thesis
    by (simp add: uploadVertices_def writeBuffer_def logCall_def)
qed

lemma snd_uploadVertices:
  "snd (uploadVertices g b vs) =
     (if vs = [] then b\<lparr> vertexCount := 0 \<rparr>
      else if buffer b \<noteq> None \<and> BYTES_PER_FLOAT * length vs \<le> capacityBytes b
      then b\<lparr> vertexCount := real (length vs) / real FLOATS_PER_VERTEX \<rparr>
      else b\<lparr> vertexCount := real (length vs) / real FLOATS_PER_VERTEX,
              capacityBytes := max 4096 (max (BYTES_PER_FLOAT * length vs) (capacityBytes b * 2)),
              buffer := Some (fresh g) \<rparr>)"
proof (cases "vs = []")
  case True then show ?thesis by (simp add: uploadVertices_empty)
next
  case False
  show ?thesis
  proof (cases "buffer b = None \<or> capacityBytes b < BYTES_PER_FLOAT * length vs")
    case True
    from uploadVertices_grow[OF False True, of g] False True show ?thesis by auto
  next
    case no: False
    then obtain h where h: "buffer b = Some h" and le: "BYTES_PER_FLOAT * length vs \<le> capacityBytes b"
      by auto
    from uploadVertices_keep[OF False h le, of g] False h le show ?thesis by simp
  qed
qed

lemma uploadVertices_allocated:
  assumes "buffer b = None \<longrightarrow> capacityBytes b = 0"
  shows "buffer (snd (uploadVertices g b vs)) = None \<longrightarrow> capacityBytes (snd (uploadVertices g b vs)) = 0"
  using assms by (simp add: snd_uploadVertices)

lemma uploadVertices_mono: "capacityBytes b \<le> capacityBytes (snd (uploadVertices g b vs))"
  by (auto simp: snd_uploadVertices max_def)

lemma uploadVertices_fits: "BYTES_PER_FLOAT * length vs \<le> capacityBytes (snd (uploadVertices g b vs))"
  by (auto simp: snd_uploadVertices max_def)

lemma uploadAll_snoc:
  "uploadAll gs (ds @ [vs]) = uploadVertices (fst (uploadAll gs ds)) (snd (uploadAll gs ds)) vs"
  by (simp add: uploadAll_def)

lemma uploadAll_allocated:
  "buffer (snd (uploadAll (g, emptyBuffer) ds)) = None \<longrightarrow>
     capacityBytes (snd (uploadAll (g, emptyBuffer) ds)) = 0"
proof (induction ds rule: rev_induct)
  case Nil show ?case by (simp add: uploadAll_def emptyBuffer_def)
next
  case (snoc vs ds)
  from uploadVertices_allocated[OF snoc] show ?case by (simp add: uploadAll_snoc)
qed

lemma uploadAll_fits:
  "\<forall>e\<in>set ds. BYTES_PER_FLOAT * length e \<le> capacityBytes (snd (uploadAll gs ds))"
proof (induction ds rule: rev_induct)
  case Nil show ?case by simp
next
  case (snoc vs ds)
  let ?g = "fst (uploadAll gs ds)" and ?b = "snd (uploadAll gs ds)"
  have mono: "capacityBytes ?b \<le> capacityBytes (snd (uploadVertices ?g ?b vs))"
    by (rule uploadVertices_mono)
  have fits: "BYTES_PER_FLOAT * length vs \<le> capacityBytes (snd (uploadVertices ?g ?b vs))"
    by (rule uploadVertices_fits)
  from snoc mono fits show ?case
    by (auto simp: uploadAll_snoc intro: order_trans)
qed

text \<open>
  Claim C3.  Take any sequence of uploads into a buffer that starts empty, and one more
  upload after it.  If the bytes the upload requires are at most the current capacity,
  nothing is allocated or released and \<open>capacityBytes\<close> is unchanged.  If they exceed the
  capacity, the old handle (if there is one) is released and a new buffer of exactly
  \<open>max 4096 (max required (capacity * 2))\<close> bytes is allocated.  Hence \<open>capacityBytes\<close>
  never decreases, and it is at least the bytes of every payload uploaded so far, the last
  non-empty one among them.
\<close>

theorem vertex_buffer_growth:
  assumes before: "uploadAll (g0, emptyBuffer) ds = (g1, b1)"
      and upload: "uploadVertices g1 b1 vs = (g2, b2)"
  shows "(BYTES_PER_FLOAT * length vs \<le> capacityBytes b1 \<longrightarrow>
            capacityBytes b2 = capacityBytes b1 \<and> buffer b2 = buffer b1 \<and> fresh g2 = fresh g1 \<and>
            (vs = [] \<longrightarrow> g2 = g1) \<and>
            (vs \<noteq> [] \<longrightarrow> (\<exists>h. buffer b1 = Some h \<and> g2 = writeBuffer g1 h 0 vs 0 (length vs))))
       \<and> (capacityBytes b1 < BYTES_PER_FLOAT * length vs \<longrightarrow>
            capacityBytes b2 = max 4096 (max (BYTES_PER_FLOAT * length vs) (capacityBytes b1 * 2)) \<and>
            buffer b2 = Some (fresh g1) \<and> fresh g2 = Suc (fresh g1) \<and>
            calls g2 = calls g1
               @ (case buffer b1 of Some h \<Rightarrow> [DestroyBuffer h] | None \<Rightarrow> [])
               @ [CreateBuffer (fresh g1) (capacityBytes b2)
                    (GPU_BUFFER_USAGE_VERTEX OR GPU_BUFFER_USAGE_COPY_DST),
                  WriteBuffer (fresh g1) 0 vs 0 (length vs)])
       \<and> capacityBytes b1 \<le> capacityBytes b2
       \<and> (\<forall>e\<in>set (ds @ [vs]). BYTES_PER_FLOAT * length e \<le> capacityBytes b2)"
proof (intro conjI impI)
  have alloc: "buffer b1 = None \<longrightarrow> capacityBytes b1 = 0"
    using uploadAll_allocated[of g0 ds] before by simp
  show "capacityBytes b1 \<le> capacityBytes b2"
    using uploadVertices_mono[of b1 g1 vs] upload by simp
  show "\<forall>e\<in>set (ds @ [vs]). BYTES_PER_FLOAT * length e \<le> capacityBytes b2"
    using uploadAll_fits[of "ds @ [vs]" "(g0, emptyBuffer)"] before upload
    by (simp add: uploadAll_snoc)
  {
    assume small: "BYTES_PER_FLOAT * length vs \<le> capacityBytes b1"
    have keep: "b2 = b1\<lparr> vertexCount := real (length vs) / real FLOATS_PER_VERTEX \<rparr> \<and>
                 (vs = [] \<longrightarrow> g2 = g1) \<and>
                 (vs \<noteq> [] \<longrightarrow> (\<exists>h. buffer b1 = Some h \<and> g2 = writeBuffer g1 h 0 vs 0 (length vs)))"
    proof (cases "vs = []")
      case True with upload show ?thesis by (simp add: uploadVertices_empty)
    next
      case False
      with small have "capacityBytes b1 \<noteq> 0" by (cases vs) (auto simp: BYTES_PER_FLOAT_def)
      with alloc obtain h where h: "buffer b1 = Some h" by auto
      from uploadVertices_keep[OF False h small, of g1] upload False h show ?thesis by simp
    qed
    from keep show "capacityBytes b2 = capacityBytes b1" by simp
    from keep show "buffer b2 = buffer b1" by simp
    from keep show "fresh g2 = fresh g1" by (cases "vs = []") (auto simp: writeBuffer_def logCall_def)
    from keep show "vs = [] \<Longrightarrow> g2 = g1" by simp
    from keep show "vs \<noteq> [] \<Longrightarrow> \<exists>h. buffer b1 = Some h \<and> g2 = writeBuffer g1 h 0 vs 0 (length vs)" by simp
  }
  {
    assume big: "capacityBytes b1 < BYTES_PER_FLOAT * length vs"
    then have ne: "vs \<noteq> []" by auto
    from big have "buffer b1 = None \<or> capacityBytes b1 < BYTES_PER_FLOAT * length vs" by simp
    from uploadVertices_grow[OF ne this, of g1] upload
    have g2: "g2 = \<lparr> calls = calls g1 @ (case buffer b1 of Some h \<Rightarrow> [DestroyBuffer h] | None \<Rightarrow> [])
               @ [CreateBuffer (fresh g1) (max 4096 (max (BYTES_PER_FLOAT * length vs) (capacityBytes b1 * 2)))
                    (GPU_BUFFER_USAGE_VERTEX OR GPU_BUFFER_USAGE_COPY_DST),
                  WriteBuffer (fresh g1) 0 vs 0 (length vs)],
              fresh = Suc (fresh g1) \<rparr>"
      and b2: "b2 = b1\<lparr> vertexCount := real (length vs) / real FLOATS_PER_VERTEX,
               capacityBytes := max 4096 (max (BYTES_PER_FLOAT * length vs) (capacityBytes b1 * 2)),
               buffer := Some (fresh g1) \<rparr>" by simp_all
    from b2 show "capacityBytes b2 = max 4096 (max (BYTES_PER_FLOAT * length vs) (capacityBytes b1 * 2))" by simp
    from b2 show "buffer b2 = Some (fresh g1)" by simp
    from g2 show "fresh g2 = Suc (fresh g1)" by simp
    from g2 b2 show "calls g2 = calls g1
               @ (case buffer b1 of Some h \<Rightarrow> [DestroyBuffer h] | None \<Rightarrow> [])
               @ [CreateBuffer (fresh g1) (capacityBytes b2)
                    (GPU_BUFFER_USAGE_VERTEX OR GPU_BUFFER_USAGE_COPY_DST),
                  WriteBuffer (fresh g1) 0 vs 0 (length vs)]" by simp
  }
qed

theorem vertex_buffer_growth_witness:
  "capacityBytes (snd (uploadAll (\<lparr> calls = [], fresh = 0 \<rparr>, emptyBuffer) [[0, 0, 0, 0, 0, 0]])) = 4096
   \<and> BYTES_PER_FLOAT * length [1, 1, 1, 1, 1, 1 :: real] \<le> 4096
   \<and> capacityBytes (snd (uploadVertices
         (fst (uploadAll (\<lparr> calls = [], fresh = 0 \<rparr>, emptyBuffer) [[0, 0, 0, 0, 0, 0]]))
         (snd (uploadAll (\<lparr> calls = [], fresh = 0 \<rparr>, emptyBuffer) [[0, 0, 0, 0, 0, 0]]))
         [1, 1, 1, 1, 1, 1])) = 4096
   \<and> 4096 < BYTES_PER_FLOAT * length (replicate 1200 (0 :: real))
   \<and> capacityBytes (snd (uploadVertices
         (fst (uploadAll (\<lparr> calls = [], fresh = 0 \<rparr>, emptyBuffer) [[0, 0, 0, 0, 0, 0]]))
         (snd (uploadAll (\<lparr> calls = [], fresh = 0 \<rparr>, emptyBuffer) [[0, 0, 0, 0, 0, 0]]))
         (replicate 1200 0))) = 8192"
proof -
  let ?g0 = "\<lparr> calls = [], fresh = 0 \<rparr>"
  let ?u = "uploadAll (?g0, emptyBuffer) [[0, 0, 0, 0, 0, 0]]"
  have before: "?u = (fst ?u, snd ?u)" by simp
  have cap: "capacityBytes (snd ?u) = 4096"
    by (simp add: uploadAll_def snd_uploadVertices emptyBuffer_def BYTES_PER_FLOAT_def)
  have small: "BYTES_PER_FLOAT * length [1, 1, 1, 1, 1, 1 :: real] \<le> 4096"
    by (simp add: BYTES_PER_FLOAT_def)
  have big: "4096 < BYTES_PER_FLOAT * length (replicate 1200 (0 :: real))"
    by (simp add: BYTES_PER_FLOAT_def)
  let ?k = "uploadVertices (fst ?u) (snd ?u) [1, 1, 1, 1, 1, 1]"
  let ?w = "uploadVertices (fst ?u) (snd ?u) (replicate 1200 0)"
  have k: "?k = (fst ?k, snd ?k)" and w: "?w = (fst ?w, snd ?w)" by simp_all
  from vertex_buffer_growth[OF before k] cap small
  have 1: "capacityBytes (snd ?k) = 4096" by simp
  from vertex_buffer_growth[OF before w] cap big
  have 2: "capacityBytes (snd ?w) = 8192" by (simp add: BYTES_PER_FLOAT_def)
  from cap small 1 big 2 show ?thesis by blast
qed

section \<open>Per-frame vertex generation\<close>

lemma length_appendVertex: "length (appendVertex vs a b c) = length vs + 6"
  by (cases c) (simp add: appendVertex_def)

lemma length_appendNode: "length (appendNode vp dpr vs n) = length vs + 36"
  by (simp add: appendNode_def Let_def length_appendVertex)

lemma length_edgeLoop:
  "i \<le> Suc EDGE_SEGMENTS \<Longrightarrow>
   length (edgeLoop vp dpr curve i previous vs) = length vs + 12 * (Suc EDGE_SEGMENTS - i)"
proof (induction vp dpr curve i previous vs rule: edgeLoop.induct)
  case (1 vp dpr curve i previous vs)
  show ?case
  proof (cases "i \<le> EDGE_SEGMENTS")
    case True
    then have le: "i + 1 \<le> Suc EDGE_SEGMENTS" by simp
    have step: "Suc EDGE_SEGMENTS - i = Suc (Suc EDGE_SEGMENTS - (i + 1))" using True by simp
    show ?thesis
      apply (subst edgeLoop.simps)
      apply (simp only: True if_True Let_def)
      apply (subst "1.IH"[OF True refl refl refl refl refl refl le])
      apply (simp only: length_appendVertex step)
      apply simp
      done
  next
    case False
    with "1.prems" have "i = Suc EDGE_SEGMENTS" by simp
    then show ?thesis by (subst edgeLoop.simps) simp
  qed
qed

lemma appendEdge_missing:
  "nodeMap (source e) = None \<or> nodeMap (target e) = None \<Longrightarrow> appendEdge nodeMap vp dpr vs e = vs"
  by (auto simp: appendEdge_def split: option.splits)

lemma length_appendEdge_resolved:
  "nodeMap (source e) \<noteq> None \<Longrightarrow> nodeMap (target e) \<noteq> None \<Longrightarrow>
   length (appendEdge nodeMap vp dpr vs e) = length vs + 12 * EDGE_SEGMENTS"
  by (auto simp: appendEdge_def Let_def length_edgeLoop split: option.splits)

lemma createNodeMap_dom_aux:
  "dom (foldl (\<lambda>m node. m(node_id node \<mapsto> node)) m0 ns) = dom m0 \<union> node_id ` set ns"
  by (induction ns arbitrary: m0) auto

lemma dom_createNodeMap: "dom (createNodeMap ns) = node_id ` set ns"
  by (simp add: createNodeMap_def createNodeMap_dom_aux)

lemma createNodeMap_Some_iff: "(\<exists>n. createNodeMap ns k = Some n) \<longleftrightarrow> k \<in> node_id ` set ns"
  using dom_createNodeMap[of ns] by (auto simp: dom_def)

lemma length_foldl_appendNode:
  "length (foldl (appendNode vp dpr) vs ns) = length vs + 36 * length ns"
  by (induction ns arbitrary: vs) (simp_all add: length_appendNode)

lemma length_foldl_appendEdge:
  "length (foldl (appendEdge m vp dpr) vs es) =
     length vs + 12 * EDGE_SEGMENTS * length (filter (\<lambda>e. m (source e) \<noteq> None \<and> m (target e) \<noteq> None) es)"
proof (induction es arbitrary: vs)
  case Nil show ?case by simp
next
  case (Cons e es)
  show ?case
  proof (cases "m (source e) \<noteq> None \<and> m (target e) \<noteq> None")
    case True
    then show ?thesis by (simp add: Cons length_appendEdge_resolved)
  next
    case False
    then have "appendEdge m vp dpr vs e = vs" by (intro appendEdge_missing) auto
    with False show ?thesis by (auto simp: Cons)
  qed
qed

lemma vertexCount_uploadVertices:
  "vertexCount (snd (uploadVertices g b vs)) = real (length vs) / real FLOATS_PER_VERTEX"
  by (simp add: uploadVertices_def Let_def ensureVertexBuffer_def createBuffer_def
      split: prod.splits option.splits)

lemma draw_runs:
  assumes "runtimeRef r = Some rt" "canvasRef r = Some c" "canvas_width c \<noteq> 0" "canvas_height c \<noteq> 0"
  shows "draw r =
    (let ub = uploadVertices (gpu r) (edgeBufferRef r) (buildEdgeVertices (sceneRef r) (dprRef r));
         un = uploadVertices (fst ub) (nodeBufferRef r) (buildNodeVertices (sceneRef r) (dprRef r))
     in r\<lparr> gpu := (fst un)\<lparr> calls := calls (fst un)
                             @ [CreateCommandEncoder, BeginRenderPass, SetBindGroup 0]
                             @ drawCalls TriangleList (snd un)
                             @ drawCalls LineList (snd ub)
                             @ [EndPass, Submit] \<rparr>,
           edgeBufferRef := snd ub, nodeBufferRef := snd un \<rparr>)"
  using assms by (simp add: draw_def Let_def split: prod.splits)

text \<open>
  Claim C1.  For every scene snapshot the vertex generation of the draw routine produces
  exactly 6 vertices (two triangles) per node, and for each edge whose source and target
  ids both resolve in the node map exactly \<open>2 * 28 = 56\<close> line-list vertices; an edge
  that names a missing node id contributes no vertex and raises no error.  A vertex is
  \<open>FLOATS_PER_VERTEX\<close> numbers of the array; when the frame is drawn, the vertex counts
  of the two buffers are these numbers of vertices.
\<close>

theorem draw_vertex_counts:
  "length (buildNodeVertices scene dpr) = FLOATS_PER_VERTEX * (6 * length (nodes scene))
   \<and> length (buildEdgeVertices scene dpr) =
       FLOATS_PER_VERTEX * (2 * EDGE_SEGMENTS *
         length (filter (\<lambda>e. source e \<in> node_id ` set (nodes scene) \<and>
                              target e \<in> node_id ` set (nodes scene)) (edges scene)))
   \<and> 2 * EDGE_SEGMENTS = 56
   \<and> length (appendNode vp dpr vs n) = length vs + FLOATS_PER_VERTEX * 6
   \<and> (nodeMap (source e) \<noteq> None \<and> nodeMap (target e) \<noteq> None \<longrightarrow>
        length (appendEdge nodeMap vp dpr vs e) = length vs + FLOATS_PER_VERTEX * 56)
   \<and> (nodeMap (source e) = None \<or> nodeMap (target e) = None \<longrightarrow>
        appendEdge nodeMap vp dpr vs e = vs)
   \<and> ((\<exists>rt c. runtimeRef r = Some rt \<and> canvasRef r = Some c \<and> canvas_width c \<noteq> 0 \<and> canvas_height c \<noteq> 0) \<longrightarrow>
        vertexCount (nodeBufferRef (draw r)) = 6 * real (length (nodes (sceneRef r))) \<and>
        vertexCount (edgeBufferRef (draw r)) =
          56 * real (length (filter (\<lambda>e. source e \<in> node_id ` set (nodes (sceneRef r)) \<and>
                              target e \<in> node_id ` set (nodes (sceneRef r))) (edges (sceneRef r)))))"
proof -
  have nodesLen: "\<And>sc d. length (buildNodeVertices sc d) = FLOATS_PER_VERTEX * (6 * length (nodes sc))"
    by (simp add: buildNodeVertices_def length_foldl_appendNode FLOATS_PER_VERTEX_def)
  have edgesLen: "\<And>sc d. length (buildEdgeVertices sc d) =
       FLOATS_PER_VERTEX * (2 * EDGE_SEGMENTS *
         length (filter (\<lambda>e. source e \<in> node_id ` set (nodes sc) \<and>
                              target e \<in> node_id ` set (nodes sc)) (edges sc)))"
    by (simp add: buildEdgeVertices_def length_foldl_appendEdge createNodeMap_Some_iff FLOATS_PER_VERTEX_def)
  have c3: "2 * EDGE_SEGMENTS = 56" by (simp add: EDGE_SEGMENTS_def)
  have c4: "length (appendNode vp dpr vs n) = length vs + FLOATS_PER_VERTEX * 6"
    by (simp add: length_appendNode FLOATS_PER_VERTEX_def)
  have c5: "nodeMap (source e) \<noteq> None \<and> nodeMap (target e) \<noteq> None \<longrightarrow>
        length (appendEdge nodeMap vp dpr vs e) = length vs + FLOATS_PER_VERTEX * 56"
    by (simp add: length_appendEdge_resolved FLOATS_PER_VERTEX_def EDGE_SEGMENTS_def)
  have c6: "nodeMap (source e) = None \<or> nodeMap (target e) = None \<longrightarrow>
        appendEdge nodeMap vp dpr vs e = vs"
    using appendEdge_missing by blast
  have c7: "(\<exists>rt c. runtimeRef r = Some rt \<and> canvasRef r = Some c \<and> canvas_width c \<noteq> 0 \<and> canvas_height c \<noteq> 0) \<longrightarrow>
        vertexCount (nodeBufferRef (draw r)) = 6 * real (length (nodes (sceneRef r))) \<and>
        vertexCount (edgeBufferRef (draw r)) =
          56 * real (length (filter (\<lambda>e. source e \<in> node_id ` set (nodes (sceneRef r)) \<and>
                              target e \<in> node_id ` set (nodes (sceneRef r))) (edges (sceneRef r))))"
  proof
    assume "\<exists>rt c. runtimeRef r = Some rt \<and> canvasRef r = Some c \<and> canvas_width c \<noteq> 0 \<and> canvas_height c \<noteq> 0"
    then obtain rt c where "runtimeRef r = Some rt" "canvasRef r = Some c" "canvas_width c \<noteq> 0" "canvas_height c \<noteq> 0"
      by blast
    from draw_runs[OF this] show "vertexCount (nodeBufferRef (draw r)) = 6 * real (length (nodes (sceneRef r))) \<and>
        vertexCount (edgeBufferRef (draw r)) =
          56 * real (length (filter (\<lambda>e. source e \<in> node_id ` set (nodes (sceneRef r)) \<and>
                              target e \<in> node_id ` set (nodes (sceneRef r))) (edges (sceneRef r))))"
      by (simp add: Let_def vertexCount_uploadVertices nodesLen edgesLen c3 FLOATS_PER_VERTEX_def)
  qed
  from nodesLen edgesLen c3 c4 c5 c6 c7 show ?thesis by blast
qed


theorem draw_vertex_counts_witness:
  "createNodeMap [nodeA, nodeB] (source edgeAB) \<noteq> None
   \<and> createNodeMap [nodeA, nodeB] (target edgeAB) \<noteq> None
   \<and> createNodeMap [nodeA, nodeB] (target edgeDangling) = None
   \<and> length (appendEdge (createNodeMap [nodeA, nodeB]) sampleViewport 1 [] edgeAB) = 6 * 56
   \<and> appendEdge (createNodeMap [nodeA, nodeB]) sampleViewport 1 [] edgeDangling = []
   \<and> (\<exists>rt c. runtimeRef readyRenderer = Some rt \<and> canvasRef readyRenderer = Some c \<and>
          canvas_width c \<noteq> 0 \<and> canvas_height c \<noteq> 0)
   \<and> vertexCount (nodeBufferRef (draw readyRenderer)) = 12
   \<and> vertexCount (edgeBufferRef (draw readyRenderer)) = 56"
proof -
  let ?m = "createNodeMap [nodeA, nodeB]"
  have a: "?m (source edgeAB) \<noteq> None" and b: "?m (target edgeAB) \<noteq> None"
    and d: "?m (target edgeDangling) = None"
    by (simp_all add: createNodeMap_def nodeA_def nodeB_def edgeAB_def edgeDangling_def)
  have ready: "\<exists>rt c. runtimeRef readyRenderer = Some rt \<and> canvasRef readyRenderer = Some c \<and>
          canvas_width c \<noteq> 0 \<and> canvas_height c \<noteq> 0"
    by (simp add: readyRenderer_def sampleCanvas_def)
  have cnt: "filter (\<lambda>e. source e \<in> node_id ` set (nodes (sceneRef readyRenderer)) \<and>
                       target e \<in> node_id ` set (nodes (sceneRef readyRenderer)))
               (edges (sceneRef readyRenderer)) = [edgeAB]"
    by (simp add: readyRenderer_def sampleScene_def nodeA_def nodeB_def edgeAB_def edgeDangling_def)
  have len: "length (nodes (sceneRef readyRenderer)) = 2"
    by (simp add: readyRenderer_def sampleScene_def)
  from draw_vertex_counts[where scene = sampleScene and dpr = 1 and vp = sampleViewport and vs = "[]"
      and n = nodeA and nodeMap = ?m and e = edgeAB and r = readyRenderer] a b
  have 1: "length (appendEdge ?m sampleViewport 1 [] edgeAB) = 6 * 56"
    by (simp add: FLOATS_PER_VERTEX_def)
  from draw_vertex_counts[where scene = sampleScene and dpr = 1 and vp = sampleViewport and vs = "[]"
      and n = nodeA and nodeMap = ?m and e = edgeDangling and r = readyRenderer] d
  have 2: "appendEdge ?m sampleViewport 1 [] edgeDangling = []" by blast
  from draw_vertex_counts[where scene = sampleScene and dpr = 1 and vp = sampleViewport and vs = "[]"
      and n = nodeA and nodeMap = ?m and e = edgeAB and r = readyRenderer] ready
  have 3: "vertexCount (nodeBufferRef (draw readyRenderer)) = 12"
    and 4: "vertexCount (edgeBufferRef (draw readyRenderer)) = 56"
    by (simp_all add: cnt len)
  from a b d 1 2 ready 3 4 show ?thesis by blast
qed

section \<open>An empty payload\<close>

lemma buildNodeVertices_none: "nodes scene = [] \<Longrightarrow> buildNodeVertices scene dpr = []"
  by (simp add: buildNodeVertices_def)

lemma buildEdgeVertices_none: "edges scene = [] \<Longrightarrow> buildEdgeVertices scene dpr = []"
  by (simp add: buildEdgeVertices_def)

lemma foldl_appendEdge_empty_map: "foldl (appendEdge Map.empty vp dpr) vs es = vs"
  by (induction es arbitrary: vs) (simp_all add: appendEdge_def)

lemma buildEdgeVertices_no_nodes: "nodes scene = [] \<Longrightarrow> buildEdgeVertices scene dpr = []"
  by (simp add: buildEdgeVertices_def createNodeMap_def foldl_appendEdge_empty_map)

lemma drawCalls_zero: "drawCalls topo (b\<lparr> vertexCount := 0 \<rparr>) = []"
  by (simp add: drawCalls_def split: option.splits)

text \<open>
  Claim C10.  For every buffer state, \<open>uploadVertices\<close> with an empty payload sets
  \<open>vertexCount\<close> to 0 and changes nothing else: the handle and \<open>capacityBytes\<close> stay, and
  no call reaches the GPU (no allocation, no release, no write).  The draw call of such
  a buffer is skipped: a drawn scene without nodes leaves both buffers as they were and
  issues no draw call at all, and a drawn scene without edges leaves the edge buffer as
  it was and issues the node draw call only.
\<close>

theorem uploadVertices_empty_payload:
  "uploadVertices g b [] = (g, b\<lparr> vertexCount := 0 \<rparr>)
   \<and> drawCalls topo (b\<lparr> vertexCount := 0 \<rparr>) = []
   \<and> ((\<exists>rt c. runtimeRef r = Some rt \<and> canvasRef r = Some c \<and> canvas_width c \<noteq> 0 \<and> canvas_height c \<noteq> 0)
        \<and> nodes (sceneRef r) = [] \<longrightarrow>
          nodeBufferRef (draw r) = (nodeBufferRef r)\<lparr> vertexCount := 0 \<rparr> \<and>
          edgeBufferRef (draw r) = (edgeBufferRef r)\<lparr> vertexCount := 0 \<rparr> \<and>
          gpu (draw r) = (gpu r)\<lparr> calls := calls (gpu r)
             @ [CreateCommandEncoder, BeginRenderPass, SetBindGroup 0, EndPass, Submit] \<rparr>)
   \<and> ((\<exists>rt c. runtimeRef r = Some rt \<and> canvasRef r = Some c \<and> canvas_width c \<noteq> 0 \<and> canvas_height c \<noteq> 0)
        \<and> edges (sceneRef r) = [] \<longrightarrow>
          edgeBufferRef (draw r) = (edgeBufferRef r)\<lparr> vertexCount := 0 \<rparr> \<and>
          (\<exists>g2 nb. uploadVertices (gpu r) (nodeBufferRef r) (buildNodeVertices (sceneRef r) (dprRef r)) = (g2, nb) \<and>
             nodeBufferRef (draw r) = nb \<and>
             gpu (draw r) = g2\<lparr> calls := calls g2
               @ [CreateCommandEncoder, BeginRenderPass, SetBindGroup 0]
               @ drawCalls TriangleList nb @ [EndPass, Submit] \<rparr>))"
proof (intro conjI impI)
  show "uploadVertices g b [] = (g, b\<lparr> vertexCount := 0 \<rparr>)" by (rule uploadVertices_empty)
  show "drawCalls topo (b\<lparr> vertexCount := 0 \<rparr>) = []" by (rule drawCalls_zero)
next
  assume a: "(\<exists>rt c. runtimeRef r = Some rt \<and> canvasRef r = Some c \<and> canvas_width c \<noteq> 0 \<and> canvas_height c \<noteq> 0)
        \<and> nodes (sceneRef r) = []"
  then obtain rt c where rc: "runtimeRef r = Some rt" "canvasRef r = Some c" "canvas_width c \<noteq> 0" "canvas_height c \<noteq> 0"
    by blast
  from a have e: "buildEdgeVertices (sceneRef r) (dprRef r) = []"
    and n: "buildNodeVertices (sceneRef r) (dprRef r) = []"
    by (simp_all add: buildEdgeVertices_no_nodes buildNodeVertices_none)
  have d: "draw r = r\<lparr> gpu := (gpu r)\<lparr> calls := calls (gpu r)
             @ [CreateCommandEncoder, BeginRenderPass, SetBindGroup 0, EndPass, Submit] \<rparr>,
           edgeBufferRef := (edgeBufferRef r)\<lparr> vertexCount := 0 \<rparr>,
           nodeBufferRef := (nodeBufferRef r)\<lparr> vertexCount := 0 \<rparr> \<rparr>"
    by (simp add: draw_runs[OF rc] e n uploadVertices_empty drawCalls_zero)
  show "nodeBufferRef (draw r) = (nodeBufferRef r)\<lparr> vertexCount := 0 \<rparr>" by (simp add: d)
  show "edgeBufferRef (draw r) = (edgeBufferRef r)\<lparr> vertexCount := 0 \<rparr>" by (simp add: d)
  show "gpu (draw r) = (gpu r)\<lparr> calls := calls (gpu r)
             @ [CreateCommandEncoder, BeginRenderPass, SetBindGroup 0, EndPass, Submit] \<rparr>" by (simp add: d)
next
  assume a: "(\<exists>rt c. runtimeRef r = Some rt \<and> canvasRef r = Some c \<and> canvas_width c \<noteq> 0 \<and> canvas_height c \<noteq> 0)
        \<and> edges (sceneRef r) = []"
  then obtain rt c where rc: "runtimeRef r = Some rt" "canvasRef r = Some c" "canvas_width c \<noteq> 0" "canvas_height c \<noteq> 0"
    by blast
  from a have e: "buildEdgeVertices (sceneRef r) (dprRef r) = []"
    by (simp add: buildEdgeVertices_none)
  obtain g2 nb where u: "uploadVertices (gpu r) (nodeBufferRef r) (buildNodeVertices (sceneRef r) (dprRef r)) = (g2, nb)"
    by (cases "uploadVertices (gpu r) (nodeBufferRef r) (buildNodeVertices (sceneRef r) (dprRef r))")
  have d: "draw r = r\<lparr> gpu := g2\<lparr> calls := calls g2
               @ [CreateCommandEncoder, BeginRenderPass, SetBindGroup 0]
               @ drawCalls TriangleList nb @ [EndPass, Submit] \<rparr>,
           edgeBufferRef := (edgeBufferRef r)\<lparr> vertexCount := 0 \<rparr>,
           nodeBufferRef := nb \<rparr>"
    by (simp add: draw_runs[OF rc] e u uploadVertices_empty drawCalls_zero)
  show "edgeBufferRef (draw r) = (edgeBufferRef r)\<lparr> vertexCount := 0 \<rparr>" by (simp add: d)
  show "\<exists>g2 nb. uploadVertices (gpu r) (nodeBufferRef r) (buildNodeVertices (sceneRef r) (dprRef r)) = (g2, nb) \<and>
             nodeBufferRef (draw r) = nb \<and>
             gpu (draw r) = g2\<lparr> calls := calls g2
               @ [CreateCommandEncoder, BeginRenderPass, SetBindGroup 0]
               @ drawCalls TriangleList nb @ [EndPass, Submit] \<rparr>"
    using u by (simp add: d)
qed


theorem uploadVertices_empty_payload_witness:
  "(\<exists>rt c. runtimeRef (drawnRenderer\<lparr> sceneRef := emptyScene \<rparr>) = Some rt \<and>
        canvasRef (drawnRenderer\<lparr> sceneRef := emptyScene \<rparr>) = Some c \<and>
        canvas_width c \<noteq> 0 \<and> canvas_height c \<noteq> 0)
   \<and> nodes (sceneRef (drawnRenderer\<lparr> sceneRef := emptyScene \<rparr>)) = []
   \<and> edges (sceneRef (drawnRenderer\<lparr> sceneRef := emptyScene \<rparr>)) = []
   \<and> nodeBufferRef (draw (drawnRenderer\<lparr> sceneRef := emptyScene \<rparr>))
       = \<lparr> buffer = Some 2, capacityBytes = 4096, vertexCount = 0 \<rparr>
   \<and> edgeBufferRef (draw (drawnRenderer\<lparr> sceneRef := emptyScene \<rparr>))
       = \<lparr> buffer = Some 1, capacityBytes = 4096, vertexCount = 0 \<rparr>
   \<and> calls (gpu (draw (drawnRenderer\<lparr> sceneRef := emptyScene \<rparr>)))
       = [CreateCommandEncoder, BeginRenderPass, SetBindGroup 0, EndPass, Submit]"
proof -
  let ?r = "drawnRenderer\<lparr> sceneRef := emptyScene \<rparr>"
  have ready: "\<exists>rt c. runtimeRef ?r = Some rt \<and> canvasRef ?r = Some c \<and>
        canvas_width c \<noteq> 0 \<and> canvas_height c \<noteq> 0"
    by (simp add: drawnRenderer_def readyRenderer_def sampleCanvas_def)
  have n: "nodes (sceneRef ?r) = []" and e: "edges (sceneRef ?r) = []"
    by (simp_all add: emptyScene_def)
  have bufs: "nodeBufferRef ?r = \<lparr> buffer = Some 2, capacityBytes = 4096, vertexCount = 12 \<rparr>"
    "edgeBufferRef ?r = \<lparr> buffer = Some 1, capacityBytes = 4096, vertexCount = 56 \<rparr>"
    "calls (gpu ?r) = []"
    by (simp_all add: drawnRenderer_def)
  from uploadVertices_empty_payload[of "gpu ?r" emptyBuffer TriangleList ?r] ready n
  have 1: "nodeBufferRef (draw ?r) = (nodeBufferRef ?r)\<lparr> vertexCount := 0 \<rparr>"
    and 2: "edgeBufferRef (draw ?r) = (edgeBufferRef ?r)\<lparr> vertexCount := 0 \<rparr>"
    and 3: "gpu (draw ?r) = (gpu ?r)\<lparr> calls := calls (gpu ?r)
             @ [CreateCommandEncoder, BeginRenderPass, SetBindGroup 0, EndPass, Submit] \<rparr>"
    by blast+
  from uploadVertices_empty_payload[of "gpu ?r" emptyBuffer TriangleList ?r] ready e
  have 4: "edgeBufferRef (draw ?r) = (edgeBufferRef ?r)\<lparr> vertexCount := 0 \<rparr>"
    by blast
  from 1 bufs have n1: "nodeBufferRef (draw ?r) = \<lparr> buffer = Some 2, capacityBytes = 4096, vertexCount = 0 \<rparr>"
    by simp
  from 4 bufs have n2: "edgeBufferRef (draw ?r) = \<lparr> buffer = Some 1, capacityBytes = 4096, vertexCount = 0 \<rparr>"
    by simp
  from 3 bufs have n3: "calls (gpu (draw ?r))
       = [CreateCommandEncoder, BeginRenderPass, SetBindGroup 0, EndPass, Submit]" by simp
  from ready n e n1 n2 n3 show ?thesis by blast
qed

section \<open>Initialization failures\<close>

lemma catchInit_not_Thrown: "catchInit out \<noteq> Thrown r'"
  by (simp add: catchInit_def split: outcome.splits)

lemma step_adapter_absent:
  "pc r = AwaitingAdapter \<Longrightarrow> \<not> disposed r \<Longrightarrow>
   failsWith AdapterUnavailable r (step r (AdapterSettled (Resolved None)))"
  by (simp add: failsWith_def afterAdapter_def catchInit_def settle_def setRuntimeError_def runtimeError_def)

lemma step_adapter_rejected:
  "pc r = AwaitingAdapter \<Longrightarrow> \<not> disposed r \<Longrightarrow>
   failsWith DeviceInitFailed r (step r (AdapterSettled Rejected))"
  by (simp add: failsWith_def afterAdapter_def catchInit_def settle_def setRuntimeError_def runtimeError_def)

lemma step_device_rejected:
  "pc r = AwaitingDevice \<Longrightarrow> \<not> disposed r \<Longrightarrow>
   failsWith DeviceInitFailed r (step r (DeviceSettled Rejected env))"
  by (simp add: failsWith_def afterDevice_def catchInit_def settle_def setRuntimeError_def runtimeError_def)

lemma step_context_absent:
  "pc r = AwaitingDevice \<Longrightarrow> \<not> disposed r \<Longrightarrow> getContextResult env = None \<Longrightarrow>
   failsWith SurfaceUnavailable r (step r (DeviceSettled (Resolved dev) env))"
  by (simp add: failsWith_def afterDevice_def catchInit_def settle_def Let_def logGpu_def
      setRuntimeError_def runtimeError_def)

lemma step_setup_throws:
  assumes "pc r = AwaitingDevice" "\<not> disposed r" "getContextResult env = Some ctx" "throwsAt env = Some c"
  shows "failsWith DeviceInitFailed r (step r (DeviceSettled (Resolved dev) env))"
  using assms
  by (cases c)
     (simp_all add: failsWith_def afterDevice_def Let_def callsBeforeUniformBuffer_def logGpu_def
        createBuffer_def catchInit_def settle_def setRuntimeError_def runtimeError_def)

lemma step_finished:
  "pc r = Finished \<Longrightarrow> step r (AdapterSettled a) = r \<and> step r (DeviceSettled d env) = r"
  by simp

lemma mount_no_gpu: "navigatorGpu r \<noteq> GpuPresent \<Longrightarrow> mount r = r"
  by (simp add: mount_def split: option.splits)

lemma statusText_no_gpu: "navigatorGpu r = NoGpuProperty \<Longrightarrow> statusText r = Some (statusOf CapabilityUnavailable)"
  by (simp add: statusText_def browserHasWebGpu_def)

lemma draw_unfold:
  "draw r =
     (case runtimeRef r of
        None \<Rightarrow> r
      | Some runtime \<Rightarrow>
          (case canvasRef r of
             None \<Rightarrow> r
           | Some canvas \<Rightarrow>
               if canvas_width canvas = 0 \<or> canvas_height canvas = 0 then r
               else
                 let ub = uploadVertices (gpu r) (edgeBufferRef r) (buildEdgeVertices (sceneRef r) (dprRef r));
                     un = uploadVertices (fst ub) (nodeBufferRef r) (buildNodeVertices (sceneRef r) (dprRef r))
                 in r\<lparr> gpu := (fst un)\<lparr> calls := calls (fst un)
                             @ [CreateCommandEncoder, BeginRenderPass, SetBindGroup 0]
                             @ drawCalls TriangleList (snd un)
                             @ drawCalls LineList (snd ub)
                             @ [EndPass, Submit] \<rparr>,
                       edgeBufferRef := snd ub, nodeBufferRef := snd un \<rparr>))"
  by (simp add: draw_def Let_def split: option.splits prod.splits)

lemma adapterRequests_logCall: "c \<noteq> RequestAdapter \<Longrightarrow> adapterRequests (logCall c g) = adapterRequests g"
  by (simp add: adapterRequests_def logCall_def)

lemma adapterRequests_createBuffer: "adapterRequests (snd (createBuffer g n u)) = adapterRequests g"
  by (simp add: adapterRequests_def createBuffer_def)

lemma adapterRequests_ensure: "adapterRequests (fst (ensureVertexBuffer g b n)) = adapterRequests g"
  by (simp add: ensureVertexBuffer_def Let_def adapterRequests_def createBuffer_def logCall_def
      split: option.splits)

lemma adapterRequests_upload: "adapterRequests (fst (uploadVertices g b vs)) = adapterRequests g"
proof -
  have "\<And>g' b' h. adapterRequests (writeBuffer g' h 0 vs 0 (length vs)) = adapterRequests g'"
    by (simp add: writeBuffer_def adapterRequests_logCall)
  then show ?thesis
    using adapterRequests_ensure[of g "b\<lparr> vertexCount := real (length vs) / real FLOATS_PER_VERTEX \<rparr>"
        "BYTES_PER_FLOAT * length vs"]
    by (simp add: uploadVertices_def Let_def case_prod_beta split: option.splits)
qed

lemma filter_drawCalls: "filter (\<lambda>c. c = RequestAdapter) (drawCalls topo b) = []"
  by (simp add: drawCalls_def split: option.splits)

lemma adapterRequests_draw: "adapterRequests (gpu (draw r)) = adapterRequests (gpu r)"
proof -
  have "\<And>g xs. adapterRequests (g\<lparr> calls := calls g @ xs \<rparr>) =
          adapterRequests g + length (filter (\<lambda>c. c = RequestAdapter) xs)"
    by (simp add: adapterRequests_def)
  then show ?thesis
    by (simp add: draw_unfold Let_def adapterRequests_upload filter_drawCalls split: option.splits)
qed

lemma adapterRequests_sync: "adapterRequests (gpu (syncCanvasSize r)) = adapterRequests (gpu r)"
  by (simp add: syncCanvasSize_def Let_def writeBuffer_def adapterRequests_logCall split: option.splits)

lemma adapterRequests_runCalls:
  "adapterRequests (case runCalls f cs g of Inl g' \<Rightarrow> g' | Inr g' \<Rightarrow> g') = adapterRequests g"
  by (induction cs arbitrary: g) (simp_all add: adapterRequests_logCall)

lemma gpu_setRuntimeError: "gpu (setRuntimeError v r) = gpu r"
  by (simp add: setRuntimeError_def)

lemma adapterRequests_teardown: "adapterRequests (gpu (teardown r)) = adapterRequests (gpu r)"
  by (simp add: teardown_def Let_def adapterRequests_logCall split: option.splits)

lemma adapterRequests_afterAdapter:
  "adapterRequests (gpu (settle (catchInit (afterAdapter res r)))) = adapterRequests (gpu r)"
  by (simp add: afterAdapter_def catchInit_def settle_def logGpu_def adapterRequests_logCall
      gpu_setRuntimeError split: settled.splits option.splits)

lemma adapterRequests_afterDevice:
  "adapterRequests (gpu (settle (catchInit (afterDevice res env r)))) = adapterRequests (gpu r)"
proof (cases res)
  case Rejected
  then show ?thesis by (simp add: afterDevice_def catchInit_def settle_def gpu_setRuntimeError)
next
  case (Resolved dev)
  show ?thesis
  proof (cases "disposed r")
    case True
    with Resolved show ?thesis by (simp add: afterDevice_def catchInit_def settle_def)
  next
    case False
    let ?g0 = "logCall GetContext (gpu r)"
    have g0: "adapterRequests ?g0 = adapterRequests (gpu r)" by (simp add: adapterRequests_logCall)
    show ?thesis
    proof (cases "getContextResult env")
      case None
      with Resolved False g0 show ?thesis
        by (simp add: afterDevice_def catchInit_def settle_def Let_def logGpu_def gpu_setRuntimeError)
    next
      case (Some ctx)
      show ?thesis
      proof (cases "runCalls (throwsAt env) callsBeforeUniformBuffer ?g0")
        case (Inl g)
        with adapterRequests_runCalls[of "throwsAt env" callsBeforeUniformBuffer ?g0] g0
        have "adapterRequests g = adapterRequests (gpu r)" by simp
        with Resolved False Some Inl show ?thesis
          by (simp add: afterDevice_def catchInit_def settle_def Let_def logGpu_def gpu_setRuntimeError)
      next
        case (Inr g)
        with adapterRequests_runCalls[of "throwsAt env" callsBeforeUniformBuffer ?g0] g0
        have g: "adapterRequests g = adapterRequests (gpu r)" by simp
        show ?thesis
        proof (cases "throwsAt env = Some CreateUniformBuffer")
          case True
          with Resolved False Some Inr g show ?thesis
            by (simp add: afterDevice_def catchInit_def settle_def Let_def logGpu_def
                gpu_setRuntimeError adapterRequests_logCall)
        next
          case noU: False
          let ?u = "GPU_BUFFER_USAGE_UNIFORM OR GPU_BUFFER_USAGE_COPY_DST"
          let ?g1 = "snd (createBuffer g 16 ?u)"
          have g1: "adapterRequests ?g1 = adapterRequests (gpu r)"
            by (simp add: adapterRequests_createBuffer g)
          show ?thesis
          proof (cases "runCalls (throwsAt env) [CreateBindGroup] ?g1")
            case (Inl g2)
            with adapterRequests_runCalls[of "throwsAt env" "[CreateBindGroup]" ?g1] g1
            have "adapterRequests g2 = adapterRequests (gpu r)" by simp
            with Resolved False Some Inr noU Inl show ?thesis
              by (simp add: afterDevice_def catchInit_def settle_def Let_def logGpu_def
                  gpu_setRuntimeError case_prod_beta)
          next
            case (Inr g2)
            with adapterRequests_runCalls[of "throwsAt env" "[CreateBindGroup]" ?g1] g1
            have "adapterRequests g2 = adapterRequests (gpu r)" by simp
            with Resolved False Some \<open>runCalls (throwsAt env) callsBeforeUniformBuffer ?g0 = Inr g\<close>
              noU Inr show ?thesis
              by (simp add: afterDevice_def catchInit_def settle_def Let_def logGpu_def
                  gpu_setRuntimeError adapterRequests_draw adapterRequests_sync case_prod_beta)
          qed
        qed
      qed
    qed
  qed
qed

lemma adapterRequests_step: "adapterRequests (gpu (step r e)) = adapterRequests (gpu r)"
proof (cases e)
  case (AdapterSettled a)
  then show ?thesis using adapterRequests_afterAdapter by simp
next
  case (DeviceSettled d env)
  then show ?thesis using adapterRequests_afterDevice by simp
next
  case Teardown
  then show ?thesis by (simp add: adapterRequests_teardown)
next
  case (SceneChanged sc)
  then show ?thesis by (simp add: adapterRequests_draw)
next
  case (Resized w h ratio)
  then show ?thesis by (simp add: adapterRequests_draw adapterRequests_sync)
qed

lemma adapterRequests_run: "adapterRequests (gpu (run r es)) = adapterRequests (gpu r)"
  by (induction es arbitrary: r) (simp_all add: run_def adapterRequests_step)

lemma adapterRequests_mount:
  "adapterRequests (gpu (mount r)) =
     (if canvasRef r \<noteq> None \<and> navigatorGpu r = GpuPresent then Suc (adapterRequests (gpu r))
      else adapterRequests (gpu r))"
  by (simp add: mount_def logGpu_def logCall_def adapterRequests_def split: option.splits)

text \<open>
  Claim C4, as the code has it.  The claim as stated fails: a rejected adapter request
  and a throwing surface configuration both end in the one \<open>catch\<close> block of
  \<open>initialize\<close>, which reports the device-initialization message; and once the
  renderer is disposed a failure reports nothing, as every call of \<open>setRuntimeError\<close>
  is guarded by the flag.
\<close>

theorem initialization_failure_kind_counterexample:
  "pc (mount unmountedRenderer) = AwaitingAdapter
   \<and> \<not> disposed (mount unmountedRenderer)
   \<and> runtimeError (step (mount unmountedRenderer) (AdapterSettled Rejected))
       = Some ''Failed to initialize WebGPU device.''
   \<and> runtimeError (step (mount unmountedRenderer) (AdapterSettled Rejected))
       \<noteq> Some (statusOf AdapterUnavailable)
   \<and> pc (step (mount unmountedRenderer) (AdapterSettled (Resolved (Some 0)))) = AwaitingDevice
   \<and> runtimeError (step (step (mount unmountedRenderer) (AdapterSettled (Resolved (Some 0))))
                          (DeviceSettled (Resolved 0) configureThrows))
       = Some ''Failed to initialize WebGPU device.''
   \<and> runtimeError (step (step (mount unmountedRenderer) (AdapterSettled (Resolved (Some 0))))
                          (DeviceSettled (Resolved 0) configureThrows))
       \<noteq> Some (statusOf SurfaceUnavailable)
   \<and> pc (teardown (mount unmountedRenderer)) = AwaitingAdapter
   \<and> runtimeError (step (teardown (mount unmountedRenderer)) (AdapterSettled (Resolved None))) = None"
  by (simp add: mount_def unmountedRenderer_def logGpu_def afterAdapter_def afterDevice_def
      catchInit_def settle_def setRuntimeError_def runtimeError_def configureThrows_def
      callsBeforeUniformBuffer_def teardown_def emptyBuffer_def Let_def)

text \<open>
  Claim C4, amended.  Each initialization failure of a renderer that is not disposed is
  surfaced only as a status string and never as a thrown fault, and nothing is retried:
  without the \<open>gpu\<close> property of the navigator the status is the capability message and
  initialization is not attempted; an adapter request that resolves to no adapter
  reports the adapter message; a drawing context that cannot be acquired reports the
  surface message; and every fault thrown during initialization (a rejected adapter
  request, a rejected device request, a surface configuration or resource creation that
  throws) reports the device-initialization message.  After any of them \<open>initialize\<close>
  is over, later settlements change nothing, and no event calls \<open>requestAdapter\<close>
  again.
\<close>

theorem initialization_failure_status:
  "(navigatorGpu r = NoGpuProperty \<longrightarrow>
       statusText r = Some (statusOf CapabilityUnavailable) \<and> mount r = r)
   \<and> (navigatorGpu r \<noteq> NoGpuProperty \<longrightarrow> statusText r = runtimeError r)
   \<and> catchInit (afterAdapter a r) \<noteq> Thrown r'
   \<and> catchInit (afterDevice d env r) \<noteq> Thrown r'
   \<and> (pc r = AwaitingAdapter \<and> \<not> disposed r \<longrightarrow>
         failsWith AdapterUnavailable r (step r (AdapterSettled (Resolved None))) \<and>
         failsWith DeviceInitFailed r (step r (AdapterSettled Rejected)))
   \<and> (pc r = AwaitingDevice \<and> \<not> disposed r \<longrightarrow>
         failsWith DeviceInitFailed r (step r (DeviceSettled Rejected env)) \<and>
         (getContextResult env = None \<longrightarrow>
            failsWith SurfaceUnavailable r (step r (DeviceSettled (Resolved dev) env))) \<and>
         (getContextResult env \<noteq> None \<and> throwsAt env \<noteq> None \<longrightarrow>
            failsWith DeviceInitFailed r (step r (DeviceSettled (Resolved dev) env))))
   \<and> (pc r = Finished \<longrightarrow> step r (AdapterSettled a) = r \<and> step r (DeviceSettled d env) = r)
   \<and> adapterRequests (gpu (run r es)) = adapterRequests (gpu r)"
proof (intro conjI impI)
  assume "navigatorGpu r = NoGpuProperty"
  then show "statusText r = Some (statusOf CapabilityUnavailable)" and "mount r = r"
    by (simp_all add: statusText_no_gpu mount_no_gpu)
next
  assume "navigatorGpu r \<noteq> NoGpuProperty"
  then show "statusText r = runtimeError r"
    by (simp add: statusText_def browserHasWebGpu_def)
next
  show "catchInit (afterAdapter a r) \<noteq> Thrown r'" and "catchInit (afterDevice d env r) \<noteq> Thrown r'"
    by (rule catchInit_not_Thrown)+
next
  assume "pc r = AwaitingAdapter \<and> \<not> disposed r"
  then show "failsWith AdapterUnavailable r (step r (AdapterSettled (Resolved None)))"
    and "failsWith DeviceInitFailed r (step r (AdapterSettled Rejected))"
    using step_adapter_absent[of r] step_adapter_rejected[of r] by blast+
next
  assume "pc r = AwaitingDevice \<and> \<not> disposed r"
  then show "failsWith DeviceInitFailed r (step r (DeviceSettled Rejected env))"
    using step_device_rejected[of r env] by blast
next
  assume "pc r = AwaitingDevice \<and> \<not> disposed r" and "getContextResult env = None"
  then show "failsWith SurfaceUnavailable r (step r (DeviceSettled (Resolved dev) env))"
    using step_context_absent[of r env dev] by blast
next
  assume a: "pc r = AwaitingDevice \<and> \<not> disposed r"
    and b: "getContextResult env \<noteq> None \<and> throwsAt env \<noteq> None"
  then obtain ctx c where "getContextResult env = Some ctx" "throwsAt env = Some c" by auto
  with a show "failsWith DeviceInitFailed r (step r (DeviceSettled (Resolved dev) env))"
    using step_setup_throws by blast
next
  assume "pc r = Finished"
  then show "step r (AdapterSettled a) = r" and "step r (DeviceSettled d env) = r"
    by simp_all
next
  show "adapterRequests (gpu (run r es)) = adapterRequests (gpu r)"
    by (rule adapterRequests_run)
qed

theorem initialization_failure_status_witness:
  "navigatorGpu (unmountedRenderer\<lparr> navigatorGpu := NoGpuProperty \<rparr>) = NoGpuProperty
   \<and> statusText (unmountedRenderer\<lparr> navigatorGpu := NoGpuProperty \<rparr>)
       = Some ''WebGPU is unavailable in this browser.''
   \<and> mount (unmountedRenderer\<lparr> navigatorGpu := NoGpuProperty \<rparr>)
       = unmountedRenderer\<lparr> navigatorGpu := NoGpuProperty \<rparr>
   \<and> pc (mount unmountedRenderer) = AwaitingAdapter \<and> \<not> disposed (mount unmountedRenderer)
   \<and> failsWith AdapterUnavailable (mount unmountedRenderer)
        (step (mount unmountedRenderer) (AdapterSettled (Resolved None)))
   \<and> failsWith DeviceInitFailed (mount unmountedRenderer)
        (step (mount unmountedRenderer) (AdapterSettled Rejected))
   \<and> pc (step (mount unmountedRenderer) (AdapterSettled (Resolved (Some 0)))) = AwaitingDevice
   \<and> \<not> disposed (step (mount unmountedRenderer) (AdapterSettled (Resolved (Some 0))))
   \<and> failsWith SurfaceUnavailable (step (mount unmountedRenderer) (AdapterSettled (Resolved (Some 0))))
        (step (step (mount unmountedRenderer) (AdapterSettled (Resolved (Some 0))))
              (DeviceSettled (Resolved 0) \<lparr> getContextResult = None, throwsAt = None \<rparr>))
   \<and> failsWith DeviceInitFailed (step (mount unmountedRenderer) (AdapterSettled (Resolved (Some 0))))
        (step (step (mount unmountedRenderer) (AdapterSettled (Resolved (Some 0))))
              (DeviceSettled (Resolved 0) configureThrows))
   \<and> pc (step (mount unmountedRenderer) (AdapterSettled Rejected)) = Finished
   \<and> step (step (mount unmountedRenderer) (AdapterSettled Rejected)) (AdapterSettled (Resolved (Some 0)))
       = step (mount unmountedRenderer) (AdapterSettled Rejected)"
proof -
  let ?n = "unmountedRenderer\<lparr> navigatorGpu := NoGpuProperty \<rparr>"
  let ?m = "mount unmountedRenderer"
  let ?d = "step ?m (AdapterSettled (Resolved (Some 0)))"
  let ?f = "step ?m (AdapterSettled Rejected)"
  let ?noctx = "\<lparr> getContextResult = None, throwsAt = None \<rparr>"
  have n: "navigatorGpu ?n = NoGpuProperty" by simp
  have m: "pc ?m = AwaitingAdapter \<and> \<not> disposed ?m"
    by (simp add: mount_def unmountedRenderer_def logGpu_def)
  have d: "pc ?d = AwaitingDevice \<and> \<not> disposed ?d"
    using m by (simp add: afterAdapter_def catchInit_def settle_def logGpu_def
        mount_def unmountedRenderer_def)
  have e1: "getContextResult ?noctx = None" by simp
  have e2: "getContextResult configureThrows \<noteq> None \<and> throwsAt configureThrows \<noteq> None"
    by (simp add: configureThrows_def)
  from initialization_failure_status[of ?n] n
  have 1: "statusText ?n = Some ''WebGPU is unavailable in this browser.''" and 2: "mount ?n = ?n"
    by simp_all
  from initialization_failure_status[of ?m] m
  have 3: "failsWith AdapterUnavailable ?m (step ?m (AdapterSettled (Resolved None)))"
    and 4: "failsWith DeviceInitFailed ?m ?f"
    by blast+
  from initialization_failure_status[of ?d _ _ _ ?noctx 0] d e1
  have 5: "failsWith SurfaceUnavailable ?d (step ?d (DeviceSettled (Resolved 0) ?noctx))"
    by blast
  from initialization_failure_status[of ?d _ _ _ configureThrows 0] d e2
  have 6: "failsWith DeviceInitFailed ?d (step ?d (DeviceSettled (Resolved 0) configureThrows))"
    by blast
  from 4 have f: "pc ?f = Finished" by (simp add: failsWith_def)
  from initialization_failure_status[of ?f "Resolved (Some 0)"] f
  have 7: "step ?f (AdapterSettled (Resolved (Some 0))) = ?f" by blast
  from n 1 2 m 3 4 d 5 6 f 7 show ?thesis by blast
qed

section \<open>Initialization against teardown\<close>

lemma draw_no_runtime: "runtimeRef r = None \<Longrightarrow> draw r = r"
  by (simp add: draw_def)

lemma syncCanvasSize_no_runtime: "runtimeRef r = None \<Longrightarrow> syncCanvasSize r = r"
  by (simp add: syncCanvasSize_def)

lemma afterAdapter_disposed:
  "disposed r \<Longrightarrow> settle (catchInit (afterAdapter res r)) =
     (case res of Resolved (Some a) \<Rightarrow> logGpu RequestDevice (r\<lparr> pc := AwaitingDevice \<rparr>)
                | _ \<Rightarrow> r\<lparr> pc := Finished \<rparr>)"
  by (simp add: afterAdapter_def catchInit_def settle_def split: settled.splits option.splits)

lemma afterDevice_disposed:
  "disposed r \<Longrightarrow> settle (catchInit (afterDevice res env r)) = r\<lparr> pc := Finished \<rparr>"
  by (simp add: afterDevice_def catchInit_def settle_def split: settled.splits)

lemma step_disposed_shared:
  assumes "disposed r"
  shows "shared (step r (AdapterSettled a)) = shared r"
    and "shared (step r (DeviceSettled d env)) = shared r"
    and "disposed (step r (AdapterSettled a))"
    and "disposed (step r (DeviceSettled d env))"
  using assms
  by (simp_all add: afterAdapter_disposed afterDevice_disposed shared_def logGpu_def
      split: settled.splits option.splits)

lemma step_after_teardown:
  assumes "disposed r" "runtimeRef r = None"
  shows "disposed (step r e) \<and> runtimeRef (step r e) = None \<and>
         setRuntimeErrorCalls (step r e) = setRuntimeErrorCalls r"
proof (cases e)
  case (AdapterSettled a)
  with assms step_disposed_shared(1,3)[OF assms(1), of a] show ?thesis
    by (simp add: shared_def)
next
  case (DeviceSettled d env)
  with assms step_disposed_shared(2,4)[OF assms(1), of d env] show ?thesis
    by (simp add: shared_def)
next
  case Teardown
  with assms show ?thesis by (simp add: teardown_def Let_def)
next
  case (SceneChanged sc)
  with assms show ?thesis by (simp add: draw_no_runtime)
next
  case (Resized w h ratio)
  with assms show ?thesis by (simp add: draw_no_runtime syncCanvasSize_no_runtime)
qed

lemma run_after_teardown:
  "disposed r \<Longrightarrow> runtimeRef r = None \<Longrightarrow>
   disposed (run r es) \<and> runtimeRef (run r es) = None \<and>
   setRuntimeErrorCalls (run r es) = setRuntimeErrorCalls r"
proof (induction es arbitrary: r)
  case Nil then show ?case by (simp add: run_def)
next
  case (Cons e es)
  from step_after_teardown[OF Cons.prems, of e]
  have s: "disposed (step r e)" "runtimeRef (step r e) = None"
    "setRuntimeErrorCalls (step r e) = setRuntimeErrorCalls r" by simp_all
  from Cons.IH[OF s(1,2)] s(3) show ?case by (simp add: run_def)
qed

lemma teardown_disposed: "disposed (teardown r) \<and> runtimeRef (teardown r) = None"
  by (simp add: teardown_def Let_def)

text \<open>
  Claim C5.  In every interleaving of \<open>initialize\<close> with the other events of the
  renderer, once the cleanup has set \<open>disposed\<close>, the flag stays set, the runtime slot
  stays empty and \<open>setRuntimeError\<close> is never called again, whatever settles afterwards
  and in whatever order; and a stretch of \<open>initialize\<close> that resumes with the flag set
  touches none of the state it shares with the component.
\<close>

theorem disposed_initialization_inert:
  "disposed (teardown (run (mount r0) es1))
   \<and> disposed (run (teardown (run (mount r0) es1)) es2)
   \<and> runtimeRef (run (teardown (run (mount r0) es1)) es2) = None
   \<and> setRuntimeErrorCalls (run (teardown (run (mount r0) es1)) es2)
       = setRuntimeErrorCalls (teardown (run (mount r0) es1))
   \<and> runtimeError (run (teardown (run (mount r0) es1)) es2)
       = runtimeError (teardown (run (mount r0) es1))
   \<and> (disposed r \<longrightarrow> shared (step r (AdapterSettled a)) = shared r \<and>
                       shared (step r (DeviceSettled d env)) = shared r)"
proof -
  let ?r1 = "teardown (run (mount r0) es1)"
  have t: "disposed ?r1" "runtimeRef ?r1 = None" using teardown_disposed by simp_all
  from run_after_teardown[OF t, of es2] t step_disposed_shared(1)[of r a] step_disposed_shared(2)[of r d env]
  show ?thesis by (simp add: runtimeError_def)
qed

theorem disposed_initialization_inert_witness:
  "disposed (teardown (mount unmountedRenderer))
   \<and> shared (step (teardown (mount unmountedRenderer)) (AdapterSettled (Resolved (Some 0))))
       = shared (teardown (mount unmountedRenderer))
   \<and> shared (step (teardown (mount unmountedRenderer)) (DeviceSettled (Resolved 0) setupSucceeds))
       = shared (teardown (mount unmountedRenderer))
   \<and> runtimeRef (run (teardown (run (mount unmountedRenderer) [AdapterSettled (Resolved (Some 0))]))
                      [DeviceSettled (Resolved 0) setupSucceeds]) = None"
proof -
  let ?t = "teardown (mount unmountedRenderer)"
  have t: "disposed ?t" by (simp add: teardown_def Let_def)
  from disposed_initialization_inert
    [of unmountedRenderer "[AdapterSettled (Resolved (Some 0))]"
        "[DeviceSettled (Resolved 0) setupSucceeds]" ?t "Resolved (Some 0)" "Resolved 0" setupSucceeds] t
  show ?thesis by simp
qed

end
